theory Spec2Isabelle
  imports Complex_Main "HOL-Library.AList" "HOL-Library.Signed_Division" "HOL-Library.Log_Nat"
begin

text \<open>
  A shallow embedding of the parts of gohome that its specification makes claims about:
  the validation package, the children of a device, the suppression of feature reporting
  on the event bus, and the recipe manager with its ingredient binding and its persisted
  form. Each Go function is a HOL function of the same name; state is passed explicitly,
  and an error or a panic is a value.
\<close>

section \<open>Errors\<close>

text \<open>
  Go functions return \<^verbatim>\<open>error\<close> values; a run-time panic (a call of a nil function, a
  reflection call on a field of the wrong kind) ends the call as well. Both are constructors
  of one type, so that every way a function of the source can stop is a value of the model.
\<close>

record Error =
  MSG :: string
  Field :: string

record Errors =
  Errors :: "Error list"

datatype error =
    ErrMsg string             \<comment> \<open>\<^verbatim>\<open>errors.New\<close>, \<^verbatim>\<open>fmt.Errorf\<close>: the message\<close>
  | ErrValidation Errors      \<comment> \<open>a \<^verbatim>\<open>*validation.Errors\<close> returned as an error\<close>
  | ErrNotExist string        \<comment> \<open>\<^verbatim>\<open>os\<close>: no file at the path\<close>
  | ErrPermission string      \<comment> \<open>\<^verbatim>\<open>os\<close>: the path cannot be written\<close>
  | ErrMarshal                \<comment> \<open>\<^verbatim>\<open>json.Marshal\<close>: a value it cannot encode\<close>
  | ErrUnmarshal              \<comment> \<open>\<^verbatim>\<open>json.Unmarshal\<close>: not a recipe document\<close>
  | Panic string              \<comment> \<open>a run-time panic\<close>

section \<open>Package validation\<close>

text \<open>\<^verbatim>\<open>(errs *Errors) Add(msg, field)\<close> appends one error; \<^verbatim>\<open>Has\<close> tests for any.\<close>

definition Add :: "Errors \<Rightarrow> string \<Rightarrow> string \<Rightarrow> Errors" where
  "Add errs msg field = errs\<lparr>Errors := Errors errs @ [\<lparr>MSG = msg, Field = field\<rparr>]\<rparr>"

definition Has :: "Errors \<Rightarrow> bool" where
  "Has errs = (length (Errors errs) > 0)"

text \<open>
  \<^verbatim>\<open>strings.Split(s, sep)\<close> for a separator of one byte: the pieces between the
  separators, always at least one piece.
\<close>

fun Split :: "string \<Rightarrow> char \<Rightarrow> string list" where
  "Split [] sep = [[]]"
| "Split (c # cs) sep =
     (if c = sep then [] # Split cs sep
      else (case Split cs sep of
              [] \<Rightarrow> [[c]]
            | p # ps \<Rightarrow> (c # p) # ps))"

text \<open>
  The item handed to \<^verbatim>\<open>JSONTagForField\<close> is a pointer to a struct; reflection sees
  the struct type as its fields, each with its tag string. \<open>struct_type\<close> is that list
  of (field name, tag) pairs. \<^verbatim>\<open>strings.Replace(parts[1], "\"", "", -1)\<close> deletes every
  double quote (byte 0x22).
\<close>

type_synonym struct_type = "(string \<times> string) list"

definition JSONTagForField :: "struct_type \<Rightarrow> string \<Rightarrow> error + string" where
  "JSONTagForField s name =
     (case map_of s name of
        None \<Rightarrow> Inl (ErrMsg (''invalid field: '' @ name))
      | Some tag \<Rightarrow>
          (let parts = Split tag (CHR '':'') in
           if length parts \<noteq> 2 then Inl (ErrMsg ''unexpected tag format'')
           else Inr (filter (\<lambda>c. c \<noteq> CHR 0x22) (parts ! 1))))"

record ErrorJSON =
  errors :: "string \<rightharpoonup> (string \<rightharpoonup> string)"

text \<open>
  The loop of \<^verbatim>\<open>NewErrorJSON\<close> over \<^verbatim>\<open>errors.Errors\<close>: an error whose field has
  no resolvable tag is skipped (\<^verbatim>\<open>continue\<close>), any other stores a fresh one-entry map
  under the key \<^verbatim>\<open>clientID + "." + jsonField\<close>.
\<close>

fun NewErrorJSON_loop ::
  "struct_type \<Rightarrow> string \<Rightarrow> Error list \<Rightarrow> ErrorJSON \<Rightarrow> ErrorJSON" where
  "NewErrorJSON_loop item clientID [] valErr = valErr"
| "NewErrorJSON_loop item clientID (e # es) valErr =
     (case JSONTagForField item (Field e) of
        Inl err \<Rightarrow> NewErrorJSON_loop item clientID es valErr
      | Inr jsonField \<Rightarrow>
          NewErrorJSON_loop item clientID es
            (valErr\<lparr>errors := (errors valErr)(clientID @ ''.'' @ jsonField \<mapsto> [''message'' \<mapsto> MSG e])\<rparr>))"

definition NewErrorJSON :: "struct_type \<Rightarrow> string \<Rightarrow> Errors \<Rightarrow> ErrorJSON" where
  "NewErrorJSON item clientID errs =
     NewErrorJSON_loop item clientID (Errors errs) \<lparr>errors = Map.empty\<rparr>"

text \<open>
  The key test of the entries of an \<^verbatim>\<open>ErrorJSON\<close>: the error's field resolves to a JSON
  tag, and \<open>k\<close> is the key \<^verbatim>\<open>NewErrorJSON\<close> builds from it.
\<close>

definition resolves_to :: "struct_type \<Rightarrow> string \<Rightarrow> string \<Rightarrow> Error \<Rightarrow> bool" where
  "resolves_to item clientID k e =
     (case JSONTagForField item (Field e) of
        Inl err \<Rightarrow> False
      | Inr jsonField \<Rightarrow> k = clientID @ ''.'' @ jsonField)"

text \<open>
  The \<^verbatim>\<open>Device\<close> struct of the sources as reflection sees it: its exported fields, none
  of which declares a tag.
\<close>

definition Device_struct_type :: struct_type where
  "Device_struct_type =
     [(''ID'', []), (''Address'', []), (''Name'', []), (''Description'', []), (''Type'', []),
      (''ModelName'', []), (''ModelNumber'', []), (''SoftwareVersion'', []), (''Buttons'', []),
      (''Devices'', []), (''Zones'', []), (''Sensors'', []), (''CmdBuilder'', []),
      (''Connections'', []), (''Auth'', []), (''Hub'', [])]"

section \<open>Devices\<close>

text \<open>
  The declarations of \<^verbatim>\<open>zone.Zone\<close>, \<^verbatim>\<open>Button\<close> and \<^verbatim>\<open>Sensor\<close> are not among the
  sources; the records hold the fields the device code reads. A \<^verbatim>\<open>Device\<close> owns its
  children in four maps keyed by the child's address; the maps are the ones
  \<^verbatim>\<open>NewDevice\<close> makes (never nil). The command builder, the connection pool and the
  hub pointer are collaborators that no operation modelled here touches.
\<close>

record Zone =
  zone_ID :: string
  zone_Address :: string
  zone_Name :: string

record Button =
  button_ID :: string
  button_Address :: string

record Sensor =
  sensor_ID :: string
  sensor_Address :: string

record Auth =
  Login :: string
  Password :: string
  Token :: string

datatype Device = Device
  (dev_ID: string)
  (dev_Address: string)
  (dev_Name: string)
  (dev_Description: string)
  (dev_ModelName: string)
  (dev_ModelNumber: string)
  (dev_SoftwareVersion: string)
  (Buttons: "string \<rightharpoonup> Button")
  (Devices: "string \<rightharpoonup> Device")
  (Zones: "string \<rightharpoonup> Zone")
  (Sensors: "string \<rightharpoonup> Sensor")
  (dev_Auth: "Auth option")

definition NewDevice ::
  "string \<Rightarrow> string \<Rightarrow> string \<Rightarrow> string \<Rightarrow> string \<Rightarrow> string \<Rightarrow> string \<Rightarrow> Auth option \<Rightarrow> Device" where
  "NewDevice ID name description modelNumber modelName softwareVersion address auth =
     Device ID address name description modelName modelNumber softwareVersion
       Map.empty Map.empty Map.empty Map.empty auth"

fun set_Buttons :: "(string \<rightharpoonup> Button) \<Rightarrow> Device \<Rightarrow> Device" where
  "set_Buttons m (Device i a n d mn mo sv bs ds zs ss au) = Device i a n d mn mo sv m ds zs ss au"

fun set_Devices :: "(string \<rightharpoonup> Device) \<Rightarrow> Device \<Rightarrow> Device" where
  "set_Devices m (Device i a n d mn mo sv bs ds zs ss au) = Device i a n d mn mo sv bs m zs ss au"

fun set_Zones :: "(string \<rightharpoonup> Zone) \<Rightarrow> Device \<Rightarrow> Device" where
  "set_Zones m (Device i a n d mn mo sv bs ds zs ss au) = Device i a n d mn mo sv bs ds m ss au"

fun set_Sensors :: "(string \<rightharpoonup> Sensor) \<Rightarrow> Device \<Rightarrow> Device" where
  "set_Sensors m (Device i a n d mn mo sv bs ds zs ss au) = Device i a n d mn mo sv bs ds zs m au"

text \<open>
  Each \<^verbatim>\<open>Add\<close> method returns its error (\<open>None\<close> is Go's nil) and the device as it
  is afterwards.
\<close>

definition AddZone :: "Device \<Rightarrow> Zone \<Rightarrow> error option \<times> Device" where
  "AddZone d z =
     (case Zones d (zone_Address z) of
        Some old \<Rightarrow>
          (Some (ErrValidation (Add \<lparr>Errors = []\<rparr>
             (''device already has a zone with the same address ['' @ zone_Address z @
              ''], must be unique'') ''Address'')), d)
      | None \<Rightarrow> (None, set_Zones ((Zones d)(zone_Address z \<mapsto> z)) d))"

definition AddButton :: "Device \<Rightarrow> Button \<Rightarrow> error option \<times> Device" where
  "AddButton d b =
     (case Buttons d (button_Address b) of
        Some old \<Rightarrow>
          (Some (ErrMsg (''button with address: '' @ button_Address b @
             '' already added to parent device'')), d)
      | None \<Rightarrow> (None, set_Buttons ((Buttons d)(button_Address b \<mapsto> b)) d))"

definition AddDevice :: "Device \<Rightarrow> Device \<Rightarrow> error option \<times> Device" where
  "AddDevice d cd =
     (case Devices d (dev_Address cd) of
        Some old \<Rightarrow>
          (Some (ErrMsg (''device with address: '' @ dev_Address cd @
             '' already added to parent device'')), d)
      | None \<Rightarrow> (None, set_Devices ((Devices d)(dev_Address cd \<mapsto> cd)) d))"

definition AddSensor :: "Device \<Rightarrow> Sensor \<Rightarrow> error option \<times> Device" where
  "AddSensor d sn =
     (case Sensors d (sensor_Address sn) of
        Some old \<Rightarrow>
          (Some (ErrMsg (''sensor with address: '' @ sensor_Address sn @
             '' already added to device'')), d)
      | None \<Rightarrow> (None, set_Sensors ((Sensors d)(sensor_Address sn \<mapsto> sn)) d))"

text \<open>\<^verbatim>\<open>Device.Validate\<close>: the required fields, nil when none is missing.\<close>

definition Validate :: "Device \<Rightarrow> Errors option" where
  "Validate d =
     (let e0 = \<lparr>Errors = []\<rparr>;
          e1 = (if dev_ID d = [] then Add e0 ''required field'' ''ID'' else e0);
          e2 = (if dev_Name d = [] then Add e1 ''required field'' ''Name'' else e1);
          e3 = (if dev_Address d = [] then Add e2 ''required field'' ''Address'' else e2)
      in if Has e3 then Some e3 else None)"

section \<open>The event bus and feature reporting\<close>

text \<open>
  A \<^verbatim>\<open>FeatureReportingEvt\<close> carries a feature ID and the attribute map (\<open>None\<close> is a
  nil map); every other kind of event on the bus is \<open>OtherEvt\<close>. The attribute type
  \<^verbatim>\<open>attr.Attribute\<close> is not among the sources and stays a type parameter.
\<close>

datatype 'a Event =
    FeatureReportingEvt (FeatureID: string) (Attrs: "(string \<rightharpoonup> 'a) option")
  | OtherEvt string

record 'a EnqueueFilter =
  ef_featureID :: string
  ef_predicate :: "'a Event \<Rightarrow> bool"
  ef_delay :: int

record 'a EvtBus =
  enqueueFilters :: "'a EnqueueFilter list"
  queue :: "'a Event list"

text \<open>
  Modelled from the spec: the event bus is an external library, so its three operations
  follow sections 3 and 4.1 of the specification. There is exactly one filter per feature
  ID and a new one replaces the old one; \<^verbatim>\<open>Enqueue\<close> drops an event silently when a
  filter whose feature ID matches the event has a predicate that returns true, and hands
  it on otherwise (\<open>queue\<close> records the events handed on, in order). The expiry of a
  filter after its delay is a matter of wall-clock time and is not part of the model: the
  delay is only stored.
\<close>

definition event_feature :: "'a Event \<Rightarrow> string option" where
  "event_feature e = (case e of FeatureReportingEvt fid attrs \<Rightarrow> Some fid | OtherEvt x \<Rightarrow> None)"

definition RemoveEnqueueFilter :: "'a EvtBus \<Rightarrow> string \<Rightarrow> 'a EvtBus" where
  "RemoveEnqueueFilter bus featureID =
     bus\<lparr>enqueueFilters := filter (\<lambda>f. ef_featureID f \<noteq> featureID) (enqueueFilters bus)\<rparr>"

definition AddEnqueueFilter ::
  "'a EvtBus \<Rightarrow> string \<Rightarrow> ('a Event \<Rightarrow> bool) \<Rightarrow> int \<Rightarrow> 'a EvtBus" where
  "AddEnqueueFilter bus featureID p delay =
     bus\<lparr>enqueueFilters :=
           filter (\<lambda>f. ef_featureID f \<noteq> featureID) (enqueueFilters bus) @
           [\<lparr>ef_featureID = featureID, ef_predicate = p, ef_delay = delay\<rparr>]\<rparr>"

definition dropped :: "'a EvtBus \<Rightarrow> 'a Event \<Rightarrow> bool" where
  "dropped bus e =
     list_ex (\<lambda>f. event_feature e = Some (ef_featureID f) \<and> ef_predicate f e) (enqueueFilters bus)"

definition Enqueue :: "'a EvtBus \<Rightarrow> 'a Event \<Rightarrow> 'a EvtBus" where
  "Enqueue bus e = (if dropped bus e then bus else bus\<lparr>queue := queue bus @ [e]\<rparr>)"

text \<open>
  The predicate \<^verbatim>\<open>SupressFeatureReporting\<close> installs: the type assertion
  \<^verbatim>\<open>e.(*FeatureReportingEvt)\<close>, then the comparison of the feature IDs.
\<close>

definition reporting_filter :: "string \<Rightarrow> 'a Event \<Rightarrow> bool" where
  "reporting_filter featureID e =
     (case e of
        OtherEvt x \<Rightarrow> False
      | FeatureReportingEvt fid attrs \<Rightarrow> (if fid = featureID then True else False))"

definition SupressFeatureReporting ::
  "'a EvtBus \<Rightarrow> string \<Rightarrow> (string \<rightharpoonup> 'a) option \<Rightarrow> int \<Rightarrow> 'a EvtBus" where
  "SupressFeatureReporting bus featureID attrs delay =
     (let b1 = RemoveEnqueueFilter bus featureID;
          b2 = (if attrs \<noteq> None then Enqueue b1 (FeatureReportingEvt featureID attrs) else b1)
      in AddEnqueueFilter b2 featureID (reporting_filter featureID) delay)"

section \<open>Recipes: values, ingredients and reflection\<close>

text \<open>
  \<open>ivalue\<close> is a Go \<^verbatim>\<open>interface{}\<close> as \<^verbatim>\<open>encoding/json\<close> decodes it: nil, a bool, a
  \<^verbatim>\<open>float64\<close>, a string, a slice or a \<^verbatim>\<open>map[string]interface{}\<close> (an association
  list read with \<open>map_of\<close>). A finite \<^verbatim>\<open>float64\<close> is the rational it denotes; JSON has
  no other numbers.
\<close>

datatype ivalue =
    INil
  | IBool bool
  | INumber rat
  | IString string
  | IArray "ivalue list"
  | IObject "(string \<times> ivalue) list"

text \<open>
  \<open>gvalue\<close> is the value of a struct field of a trigger or an action, by the kind
  reflection sees: a string, a bool, an integer (taken as \<^verbatim>\<open>int64\<close>), a float (at
  \<^verbatim>\<open>float64\<close> precision; the narrowing of a \<^verbatim>\<open>float32\<close> field is not modelled), a
  \<^verbatim>\<open>time.Duration\<close> in nanoseconds, or a \<^verbatim>\<open>time.Time\<close> given by its RFC 3339 text.
  A struct is the list of its fields with their values.
\<close>

datatype gfloat = Finite rat | NotFinite

datatype gvalue =
    GString string
  | GBool bool
  | GInt int
  | GFloat gfloat
  | GDuration int
  | GTime string

type_synonym struct = "(string \<times> gvalue) list"

text \<open>
  Conversions of the language. \<open>float64_of_int\<close>: the \<^verbatim>\<open>float64\<close> nearest to an
  integer (ties to even, 53 bits), which is what decoding the decimal text of an integer
  gives. \<open>int64_of_float64\<close>: the conversion \<^verbatim>\<open>int64(x)\<close>, truncating towards zero; Go
  leaves the result out of range to the implementation, and the model takes the minimum
  \<^verbatim>\<open>int64\<close>, as amd64 does. \<open>wrap64\<close>: a result of \<^verbatim>\<open>int64\<close> arithmetic.
\<close>

definition float64_of_int :: "int \<Rightarrow> rat" where
  "float64_of_int n =
     (let a = \<bar>n\<bar> in
      if a < 2 ^ 53 then of_int n
      else (let e = nat (bitlen a - 53);
                q = a div 2 ^ e;
                r = a mod 2 ^ e;
                h = 2 ^ (e - 1);
                q' = (if r > h \<or> (r = h \<and> odd q) then q + 1 else q)
            in of_int (sgn n * q' * 2 ^ e)))"

definition int64_of_float64 :: "rat \<Rightarrow> int" where
  "int64_of_float64 x =
     (let t = (if x < 0 then \<lceil>x\<rceil> else \<lfloor>x\<rfloor>)
      in if - (2 ^ 63) \<le> t \<and> t < 2 ^ 63 then t else - (2 ^ 63))"

definition wrap64 :: "int \<Rightarrow> int" where
  "wrap64 x = (x + 2 ^ 63) mod 2 ^ 64 - 2 ^ 63"

record Identifiable =
  ID :: string
  Name :: string
  Description :: string

record Ingredient =
  ing_Identifiable :: Identifiable
  ing_Type :: string
  ing_Required :: bool
  ing_Reference :: string

text \<open>
  The declarations of \<^verbatim>\<open>Trigger\<close>, \<^verbatim>\<open>Action\<close> and \<^verbatim>\<open>Recipe\<close> and all trigger types
  are not among the sources. A \<open>variant\<close> is one concrete Go type behind the interfaces: the
  tag its \<^verbatim>\<open>Type()\<close> returns, the list its \<^verbatim>\<open>Ingredients()\<close> returns (a constant of the
  type, as in \<^verbatim>\<open>ZoneSetLevelAction\<close>) and the zero value of its struct, which \<^verbatim>\<open>New()\<close>
  returns. An instance is a variant with the current values of its fields.
\<close>

record variant =
  vType :: string
  vIngredients :: "Ingredient list"
  vZero :: struct

record inst =
  inst_variant :: variant
  inst_fields :: struct

text \<open>
  Modelled from the spec: a trigger is an instance with the state of sections 3 and 4.2, the
  flag behind \<^verbatim>\<open>Enabled()\<close> and \<^verbatim>\<open>SetEnabled(bool)\<close> and whether it is started; a new
  one is disabled and stopped.
\<close>

record trigger = inst +
  trg_Enabled :: bool
  trg_Started :: bool

definition Type :: "'a inst_scheme \<Rightarrow> string" where
  "Type i = vType (inst_variant i)"

definition Ingredients :: "'a inst_scheme \<Rightarrow> Ingredient list" where
  "Ingredients i = vIngredients (inst_variant i)"

definition New_action :: "variant \<Rightarrow> inst" where
  "New_action v = \<lparr>inst_variant = v, inst_fields = vZero v\<rparr>"

definition New_trigger :: "variant \<Rightarrow> trigger" where
  "New_trigger v = \<lparr>inst_variant = v, inst_fields = vZero v, trg_Enabled = False, trg_Started = False\<rparr>"

text \<open>\<^verbatim>\<open>ZoneSetLevelAction\<close>, the one variant among the sources.\<close>

definition ZoneSetLevelAction :: variant where
  "ZoneSetLevelAction =
     \<lparr>vType = ''gohome.ZoneSetLevelAction'',
      vIngredients =
        [\<lparr>ing_Identifiable = \<lparr>ID = ''Level'', Name = ''Intensity Level'',
             Description = ''The target intensity for the zone''\<rparr>,
          ing_Type = ''float'', ing_Required = True, ing_Reference = []\<rparr>,
         \<lparr>ing_Identifiable = \<lparr>ID = ''ZoneID'', Name = ''Zone ID'',
             Description = ''The ID of the target zone''\<rparr>,
          ing_Type = ''string'', ing_Required = True, ing_Reference = ''zone''\<rparr>],
      vZero = [(''ZoneID'', GString []), (''Level'', GFloat (Finite 0))]\<rparr>"

text \<open>
  Reflection on a struct. \<^verbatim>\<open>FieldByName\<close> is \<open>map_of\<close>; a setter panics on a missing
  field or on a field of another kind. \<^verbatim>\<open>SetInt\<close> serves every integer kind, a duration
  included; \<^verbatim>\<open>Set\<close> with a \<^verbatim>\<open>time.Duration\<close> needs a field of that type.
\<close>

definition SetString :: "struct \<Rightarrow> string \<Rightarrow> string \<Rightarrow> error option \<times> struct" where
  "SetString s f v =
     (case map_of s f of
        Some (GString old) \<Rightarrow> (None, AList.update f (GString v) s)
      | _ \<Rightarrow> (Some (Panic ''reflect: call of reflect.Value.SetString''), s))"

definition SetBool :: "struct \<Rightarrow> string \<Rightarrow> bool \<Rightarrow> error option \<times> struct" where
  "SetBool s f v =
     (case map_of s f of
        Some (GBool old) \<Rightarrow> (None, AList.update f (GBool v) s)
      | _ \<Rightarrow> (Some (Panic ''reflect: call of reflect.Value.SetBool''), s))"

definition SetInt :: "struct \<Rightarrow> string \<Rightarrow> int \<Rightarrow> error option \<times> struct" where
  "SetInt s f v =
     (case map_of s f of
        Some (GInt old) \<Rightarrow> (None, AList.update f (GInt v) s)
      | Some (GDuration old) \<Rightarrow> (None, AList.update f (GDuration v) s)
      | _ \<Rightarrow> (Some (Panic ''reflect: call of reflect.Value.SetInt''), s))"

definition SetFloat :: "struct \<Rightarrow> string \<Rightarrow> rat \<Rightarrow> error option \<times> struct" where
  "SetFloat s f v =
     (case map_of s f of
        Some (GFloat old) \<Rightarrow> (None, AList.update f (GFloat (Finite v)) s)
      | _ \<Rightarrow> (Some (Panic ''reflect: call of reflect.Value.SetFloat''), s))"

definition Set_Duration :: "struct \<Rightarrow> string \<Rightarrow> int \<Rightarrow> error option \<times> struct" where
  "Set_Duration s f v =
     (case map_of s f of
        Some (GDuration old) \<Rightarrow> (None, AList.update f (GDuration v) s)
      | _ \<Rightarrow> (Some (Panic ''reflect.Set: value of type time.Duration is not assignable''), s))"

text \<open>
  The \<^verbatim>\<open>switch ingredient.Type\<close> of \<^verbatim>\<open>setIngredients\<close> for a value that is present: the
  type assertion, then the setter. \<^verbatim>\<open>datetime\<close> does nothing; any other type name is
  the default case.
\<close>

definition set_ingredient :: "Ingredient \<Rightarrow> ivalue \<Rightarrow> struct \<Rightarrow> error option \<times> struct" where
  "set_ingredient ingredient v s =
     (let i = ID (ing_Identifiable ingredient) in
      if ing_Type ingredient = ''string'' then
        (case v of
           IString value \<Rightarrow> SetString s i value
         | _ \<Rightarrow> (Some (ErrMsg (''Invalid type, '' @ i @ '' must be a string'')), s))
      else if ing_Type ingredient = ''boolean'' then
        (case v of
           IBool value \<Rightarrow> SetBool s i value
         | _ \<Rightarrow> (Some (ErrMsg (''Invalid type, '' @ i @ '' must be a boolean'')), s))
      else if ing_Type ingredient = ''integer'' then
        (case v of
           INumber value \<Rightarrow> SetInt s i (int64_of_float64 value)
         | _ \<Rightarrow> (Some (ErrMsg (''Invalid type, '' @ i @ '' must be an integer'')), s))
      else if ing_Type ingredient = ''float'' then
        (case v of
           INumber value \<Rightarrow> SetFloat s i value
         | _ \<Rightarrow> (Some (ErrMsg (''Invalid type, '' @ i @ '' must be a float'')), s))
      else if ing_Type ingredient = ''duration'' then
        (case v of
           INumber value \<Rightarrow> Set_Duration s i (wrap64 (int64_of_float64 value * 1000000))
         | _ \<Rightarrow> (Some (ErrMsg (''Invalid type, '' @ i @ '' must be an integer'')), s))
      else if ing_Type ingredient = ''datetime'' then (None, s)
      else (Some (ErrMsg (''Unknown ingredient type: '' @ ing_Type ingredient)), s))"

text \<open>
  \<^verbatim>\<open>setIngredients\<close>: the loop over \<^verbatim>\<open>i.Ingredients()\<close>. It writes into the struct as
  it goes, so the struct it returns with an error holds the values bound before the
  failure.
\<close>

fun setIngredients ::
  "Ingredient list \<Rightarrow> (string \<times> ivalue) list \<Rightarrow> struct \<Rightarrow> error option \<times> struct" where
  "setIngredients [] ingredientValues s = (None, s)"
| "setIngredients (ingredient # rest) ingredientValues s =
     (case map_of ingredientValues (ID (ing_Identifiable ingredient)) of
        None \<Rightarrow>
          (if ing_Required ingredient then (Some (ErrMsg ''Missing ingredient''), s)
           else setIngredients rest ingredientValues s)
      | Some v \<Rightarrow>
          (case set_ingredient ingredient v s of
             (Some err, s') \<Rightarrow> (Some err, s')
           | (None, s') \<Rightarrow> setIngredients rest ingredientValues s'))"

text \<open>
  \<^verbatim>\<open>getIngredientValueMap\<close>: a duration is stored as whole milliseconds (Go's integer
  division truncates towards zero, \<open>sdiv\<close>); every other field goes into the map as it
  is. \<^verbatim>\<open>Int()\<close> panics on a field that is no integer, \<^verbatim>\<open>Interface()\<close> on a missing one.
\<close>

fun getIngredientValueMap_loop ::
  "Ingredient list \<Rightarrow> struct \<Rightarrow> (string \<times> gvalue) list \<Rightarrow> error + (string \<times> gvalue) list" where
  "getIngredientValueMap_loop [] v values = Inr values"
| "getIngredientValueMap_loop (ingredient # rest) v values =
     (let i = ID (ing_Identifiable ingredient) in
      if ing_Type ingredient = ''duration'' then
        (case map_of v i of
           Some (GInt n) \<Rightarrow>
             getIngredientValueMap_loop rest v (AList.update i (GInt (n sdiv 1000000)) values)
         | Some (GDuration n) \<Rightarrow>
             getIngredientValueMap_loop rest v (AList.update i (GInt (n sdiv 1000000)) values)
         | _ \<Rightarrow> Inl (Panic ''reflect: call of reflect.Value.Int''))
      else
        (case map_of v i of
           Some value \<Rightarrow> getIngredientValueMap_loop rest v (AList.update i value values)
         | None \<Rightarrow> Inl (Panic ''reflect: call of reflect.Value.Interface on zero Value'')))"

definition getIngredientValueMap :: "'a inst_scheme \<Rightarrow> error + (string \<times> gvalue) list" where
  "getIngredientValueMap i = getIngredientValueMap_loop (Ingredients i) (inst_fields i) []"

section \<open>Recipes: the persisted form\<close>

text \<open>
  \<^verbatim>\<open>recipeJSON\<close> with its two wrappers (\<^verbatim>\<open>triggerWrapper\<close> and \<^verbatim>\<open>actionWrapper\<close> have
  the same shape). The record is used at two value types: with the Go values that
  \<^verbatim>\<open>SaveRecipe\<close> collects, and with the decoded values that \<^verbatim>\<open>loadRecipe\<close> reads.
\<close>

record 'v wrapper =
  w_type :: string
  w_fields :: "(string \<times> 'v) list"

record 'v recipeJSON =
  json_Identifiable :: Identifiable
  json_enabled :: bool
  json_Trigger :: "'v wrapper"
  json_Action :: "'v wrapper"

text \<open>
  The JSON text itself is not modelled: a file's content is the document that
  \<^verbatim>\<open>json.Unmarshal\<close> decodes from it into a \<^verbatim>\<open>recipeJSON\<close>, or \<open>Malformed\<close> when the
  decoding fails. \<open>json_value\<close> is what a Go value is after \<^verbatim>\<open>json.Marshal\<close> and the
  decoding into an \<^verbatim>\<open>interface{}\<close>: numbers come back as \<^verbatim>\<open>float64\<close>, a time as its
  text, and a float that is not finite is refused by \<^verbatim>\<open>json.Marshal\<close>. Strings are taken
  as valid UTF-8.
\<close>

datatype bytes = Document "ivalue recipeJSON" | Malformed

fun json_value :: "gvalue \<Rightarrow> ivalue option" where
  "json_value (GString s) = Some (IString s)"
| "json_value (GBool b) = Some (IBool b)"
| "json_value (GInt n) = Some (INumber (float64_of_int n))"
| "json_value (GFloat (Finite x)) = Some (INumber x)"
| "json_value (GFloat NotFinite) = None"
| "json_value (GDuration n) = Some (INumber (float64_of_int n))"
| "json_value (GTime t) = Some (IString t)"

fun encode_fields :: "(string \<times> gvalue) list \<Rightarrow> (string \<times> ivalue) list option" where
  "encode_fields [] = Some []"
| "encode_fields ((k, v) # kvs) =
     (case json_value v of
        None \<Rightarrow> None
      | Some j \<Rightarrow> (case encode_fields kvs of None \<Rightarrow> None | Some js \<Rightarrow> Some ((k, j) # js)))"

definition json_Marshal :: "gvalue recipeJSON \<Rightarrow> error + bytes" where
  "json_Marshal out =
     (case encode_fields (w_fields (json_Trigger out)) of
        None \<Rightarrow> Inl ErrMarshal
      | Some tf \<Rightarrow>
          (case encode_fields (w_fields (json_Action out)) of
             None \<Rightarrow> Inl ErrMarshal
           | Some af \<Rightarrow>
               Inr (Document
                 \<lparr>json_Identifiable = json_Identifiable out,
                  json_enabled = json_enabled out,
                  json_Trigger = \<lparr>w_type = w_type (json_Trigger out), w_fields = tf\<rparr>,
                  json_Action = \<lparr>w_type = w_type (json_Action out), w_fields = af\<rparr>\<rparr>)))"


section \<open>The recipe manager\<close>

text \<open>
  A \<^verbatim>\<open>Recipe\<close> holds its identity, a pointer to its trigger and its action. Triggers
  change after they are shared (enabled, started) and the broker knows them by pointer, so
  they live in a store: \<open>heap\<close> is the list of all trigger objects and an address is an
  index into it; an address outside the store stands for a nil trigger. Actions and recipes
  are written once, when they are built, and are held by value.
\<close>

type_synonym addr = nat

record Recipe =
  rcp_Identifiable :: Identifiable
  Trigger :: addr
  Action :: inst

text \<open>
  The state the manager works on: the fields of \<^verbatim>\<open>RecipeManager\<close> (the recipe list,
  the data path, the two factories, each mapping a type tag to the variant whose
  \<^verbatim>\<open>New\<close> it holds), the consumers registered with its event broker, the trigger store
  and the file system, which is the content of each path and the set of paths that refuse
  a write or a removal.
\<close>

record state =
  Recipes :: "Recipe list"
  dataPath :: string
  triggerFactory :: "string \<rightharpoonup> variant"
  actionFactory :: "string \<rightharpoonup> variant"
  eventBroker :: "addr list"
  heap :: "trigger list"
  files :: "string \<rightharpoonup> bytes"
  unwritable :: "string set"

text \<open>The file system calls: \<^verbatim>\<open>ioutil.WriteFile\<close>, \<^verbatim>\<open>ioutil.ReadFile\<close>, \<^verbatim>\<open>os.Remove\<close>.\<close>

definition WriteFile :: "state \<Rightarrow> string \<Rightarrow> bytes \<Rightarrow> error option \<times> state" where
  "WriteFile s p b =
     (if p \<in> unwritable s then (Some (ErrPermission p), s)
      else (None, s\<lparr>files := (files s)(p \<mapsto> b)\<rparr>))"


definition Remove :: "state \<Rightarrow> string \<Rightarrow> error option \<times> state" where
  "Remove s p =
     (case files s p of
        None \<Rightarrow> (Some (ErrNotExist p), s)
      | Some b \<Rightarrow>
          (if p \<in> unwritable s then (Some (ErrPermission p), s)
           else (None, s\<lparr>files := (files s)(p := None)\<rparr>)))"

text \<open>Allocation of a trigger object, and the write of its fields through the pointer.\<close>

definition alloc :: "state \<Rightarrow> trigger \<Rightarrow> addr \<times> state" where
  "alloc s t = (length (heap s), s\<lparr>heap := heap s @ [t]\<rparr>)"

definition set_fields :: "state \<Rightarrow> addr \<Rightarrow> struct \<Rightarrow> state" where
  "set_fields s a flds = s\<lparr>heap := (heap s)[a := (heap s ! a)\<lparr>inst_fields := flds\<rparr>]\<rparr>"

text \<open>
  Modelled from the spec: the methods of \<^verbatim>\<open>Trigger\<close> and \<^verbatim>\<open>Recipe\<close> that are not among
  the sources. \<^verbatim>\<open>Enabled()\<close> and \<^verbatim>\<open>SetEnabled(bool)\<close> read and write the enabled flag;
  \<^verbatim>\<open>Recipe.Start()\<close> and \<^verbatim>\<open>Recipe.Stop()\<close> start and stop the recipe's trigger
  (section 3: the recipe owns the trigger's lifecycle).
\<close>

definition Enabled :: "state \<Rightarrow> addr \<Rightarrow> bool" where
  "Enabled s a = trg_Enabled (heap s ! a)"

definition SetEnabled :: "state \<Rightarrow> addr \<Rightarrow> bool \<Rightarrow> state" where
  "SetEnabled s a enabled = s\<lparr>heap := (heap s)[a := (heap s ! a)\<lparr>trg_Enabled := enabled\<rparr>]\<rparr>"

definition Start :: "state \<Rightarrow> Recipe \<Rightarrow> state" where
  "Start s r = s\<lparr>heap := (heap s)[Trigger r := (heap s ! Trigger r)\<lparr>trg_Started := True\<rparr>]\<rparr>"

definition Stop :: "state \<Rightarrow> Recipe \<Rightarrow> state" where
  "Stop s r = s\<lparr>heap := (heap s)[Trigger r := (heap s ! Trigger r)\<lparr>trg_Started := False\<rparr>]\<rparr>"

text \<open>
  Modelled from the spec: the event broker of the manager, which is not among the sources
  (section 4.1). \<^verbatim>\<open>AddConsumer\<close> subscribes a consumer, once however often it is asked
  (section 4.2: no duplicate subscriptions); \<^verbatim>\<open>RemoveConsumer\<close> ends the subscription.
  An event is delivered to every registered consumer; a trigger that receives it invokes
  its recipe's action when it is started and enabled and its condition holds of the event
  (section 4.2). The condition is the variant's own code and stays a parameter.
\<close>

definition AddConsumer :: "state \<Rightarrow> addr \<Rightarrow> state" where
  "AddConsumer s c =
     (if c \<in> set (eventBroker s) then s else s\<lparr>eventBroker := eventBroker s @ [c]\<rparr>)"

definition RemoveConsumer :: "state \<Rightarrow> addr \<Rightarrow> state" where
  "RemoveConsumer s c = s\<lparr>eventBroker := filter (\<lambda>x. x \<noteq> c) (eventBroker s)\<rparr>"


text \<open>
  \<^verbatim>\<open>RegisterAndStart\<close> and \<^verbatim>\<open>UnregisterAndStop\<close>. The type assertion
  \<^verbatim>\<open>r.Trigger.(EventConsumer)\<close> panics on a nil trigger; every trigger variant is taken
  to be an event consumer.
\<close>

definition RegisterAndStart :: "state \<Rightarrow> Recipe \<Rightarrow> error option \<times> state" where
  "RegisterAndStart rm r =
     (if Trigger r \<ge> length (heap rm) then (Some (Panic ''interface conversion: interface is nil''), rm)
      else (None, Start (AddConsumer rm (Trigger r)) r))"

definition UnregisterAndStop :: "state \<Rightarrow> Recipe \<Rightarrow> error option \<times> state" where
  "UnregisterAndStop rm r =
     (if Trigger r \<ge> length (heap rm) then (Some (Panic ''interface conversion: interface is nil''), rm)
      else (None, Stop (RemoveConsumer rm (Trigger r)) r))"

fun RecipeByID_loop :: "Recipe list \<Rightarrow> string \<Rightarrow> Recipe option" where
  "RecipeByID_loop [] i = None"
| "RecipeByID_loop (recipe # rest) i =
     (if ID (rcp_Identifiable recipe) = i then Some recipe else RecipeByID_loop rest i)"

definition RecipeByID :: "state \<Rightarrow> string \<Rightarrow> Recipe option" where
  "RecipeByID rm i = RecipeByID_loop (Recipes rm) i"

text \<open>
  \<^verbatim>\<open>recipePath\<close>: the data path joined with the file name of the recipe
  (\<^verbatim>\<open>filepath.Join\<close> without its cleaning of the path).
\<close>

definition recipePath :: "state \<Rightarrow> Recipe \<Rightarrow> string" where
  "recipePath rm r = dataPath rm @ ''/'' @ ID (rcp_Identifiable r) @ ''.json''"

text \<open>
  \<^verbatim>\<open>SaveRecipe\<close>. A method call on a nil trigger panics. The list grows only on the
  last line, after the write.
\<close>

definition SaveRecipe :: "state \<Rightarrow> Recipe \<Rightarrow> bool \<Rightarrow> error option \<times> state" where
  "SaveRecipe rm r appendTo =
     (if Trigger r \<ge> length (heap rm) then (Some (Panic ''nil pointer dereference''), rm)
      else
        (case getIngredientValueMap (heap rm ! Trigger r) of
           Inl p \<Rightarrow> (Some p, rm)
         | Inr triggerValues \<Rightarrow>
             (case getIngredientValueMap (Action r) of
                Inl p \<Rightarrow> (Some p, rm)
              | Inr actionValues \<Rightarrow>
                  (let out = \<lparr>json_Identifiable = rcp_Identifiable r,
                              json_enabled = Enabled rm (Trigger r),
                              json_Trigger = \<lparr>w_type = Type (heap rm ! Trigger r), w_fields = triggerValues\<rparr>,
                              json_Action = \<lparr>w_type = Type (Action r), w_fields = actionValues\<rparr>\<rparr>
                   in case json_Marshal out of
                        Inl err \<Rightarrow> (Some err, rm)
                      | Inr b \<Rightarrow>
                          (case WriteFile rm (recipePath rm r) b of
                             (Some err, rm1) \<Rightarrow> (Some err, rm1)
                           | (None, rm1) \<Rightarrow>
                               (None, if appendTo then rm1\<lparr>Recipes := Recipes rm1 @ [r]\<rparr> else rm1))))))"

text \<open>\<^verbatim>\<open>EnableRecipe\<close>.\<close>

definition EnableRecipe :: "state \<Rightarrow> Recipe \<Rightarrow> bool \<Rightarrow> error option \<times> state" where
  "EnableRecipe rm r enabled =
     (if Trigger r \<ge> length (heap rm) then (Some (Panic ''nil pointer dereference''), rm)
      else
        (let oldEnabled = Enabled rm (Trigger r) in
         if oldEnabled = enabled then (None, rm)
         else SaveRecipe (SetEnabled rm (Trigger r) enabled) r False))"

text \<open>
  \<^verbatim>\<open>DeleteRecipe\<close>: the removal of the file, then the loop that cuts the first recipe
  with the same ID out of the list, then \<^verbatim>\<open>UnregisterAndStop\<close>. The path it prints is
  not modelled.
\<close>

fun DeleteRecipe_loop :: "Recipe list \<Rightarrow> string \<Rightarrow> Recipe list" where
  "DeleteRecipe_loop [] i = []"
| "DeleteRecipe_loop (recipe # rest) i =
     (if ID (rcp_Identifiable recipe) = i then rest else recipe # DeleteRecipe_loop rest i)"

definition DeleteRecipe :: "state \<Rightarrow> Recipe \<Rightarrow> error option \<times> state" where
  "DeleteRecipe rm r =
     (case Remove rm (recipePath rm r) of
        (Some err, rm1) \<Rightarrow> (Some err, rm1)
      | (None, rm1) \<Rightarrow>
          UnregisterAndStop
            (rm1\<lparr>Recipes := DeleteRecipe_loop (Recipes rm1) (ID (rcp_Identifiable r))\<rparr>) r)"




text \<open>
  Modelled from the spec: \<^verbatim>\<open>NewRecipe\<close> is not among the sources. It constructs the
  recipe from the name, the description, the trigger and the action, with the trigger's
  enabled flag as asked (section 4.3: a new enabled recipe, not yet persisted or
  registered). The spec does not say where the ID comes from; it is an argument here.
\<close>

definition NewRecipe ::
  "state \<Rightarrow> string \<Rightarrow> string \<Rightarrow> string \<Rightarrow> bool \<Rightarrow> addr \<Rightarrow> inst \<Rightarrow> (error + Recipe) \<times> state" where
  "NewRecipe rm newID name desc enabled trigger action =
     (Inr \<lparr>rcp_Identifiable = \<lparr>ID = newID, Name = name, Description = desc\<rparr>,
           Trigger = trigger, Action = action\<rparr>,
      SetEnabled rm trigger enabled)"

text \<open>
  \<^verbatim>\<open>UnmarshalNewRecipe\<close>. Every key is read by the same two steps, the test that the key
  is there and the type assertion on its value, each with its own message; \<open>string_key\<close>
  and \<open>object_key\<close> are those two steps, and \<open>then_do\<close> is the early return.
\<close>

definition then_do :: "error + 'a \<Rightarrow> ('a \<Rightarrow> error + 'b) \<Rightarrow> error + 'b" where
  "then_do r f = (case r of Inl err \<Rightarrow> Inl err | Inr x \<Rightarrow> f x)"

definition string_key :: "(string \<times> ivalue) list \<Rightarrow> string \<Rightarrow> string \<Rightarrow> string \<Rightarrow> error + string" where
  "string_key m k missing invalid =
     (case map_of m k of
        None \<Rightarrow> Inl (ErrMsg missing)
      | Some (IString v) \<Rightarrow> Inr v
      | Some other \<Rightarrow> Inl (ErrMsg invalid))"

definition object_key ::
  "(string \<times> ivalue) list \<Rightarrow> string \<Rightarrow> string \<Rightarrow> string \<Rightarrow> error + (string \<times> ivalue) list" where
  "object_key m k missing invalid =
     (case map_of m k of
        None \<Rightarrow> Inl (ErrMsg missing)
      | Some (IObject v) \<Rightarrow> Inr v
      | Some other \<Rightarrow> Inl (ErrMsg invalid))"

definition factory_key :: "(string \<rightharpoonup> variant) \<Rightarrow> string \<Rightarrow> string \<Rightarrow> error + unit" where
  "factory_key factory k invalid =
     (case factory k of None \<Rightarrow> Inl (ErrMsg (invalid @ k)) | Some v \<Rightarrow> Inr ())"

definition UnmarshalNewRecipe_keys ::
  "state \<Rightarrow> (string \<times> ivalue) list \<Rightarrow>
   error + (string \<times> string \<times> string \<times> (string \<times> ivalue) list \<times> string \<times> (string \<times> ivalue) list)" where
  "UnmarshalNewRecipe_keys rm data =
     then_do (string_key data ''name''
        ''Missing name key'' ''Invalid value for name, must be a string'') (\<lambda>name.
     then_do (string_key data ''description''
        ''Missing description key'' ''Invalid value for description, must be a string'') (\<lambda>desc.
     then_do (object_key data ''trigger''
        ''Missing trigger key'' ''Invalid value for trigger, must be an object'') (\<lambda>triggerData.
     then_do (string_key triggerData ''id''
        ''Missing id key in trigger object'' ''Invalid value, trigger.id must be a string'') (\<lambda>triggerID.
     then_do (object_key triggerData ''ingredients''
        ''Missing trigger.ingredients key''
        ''Invalid value for trigger.ingredients, must be an object'') (\<lambda>triggerIngredients.
     then_do (factory_key (triggerFactory rm) triggerID ''Invalid trigger ID: '') (\<lambda>u.
     then_do (object_key data ''action''
        ''Missing action key'' ''Invalid value for action, must be an object'') (\<lambda>actionData.
     then_do (string_key actionData ''id''
        ''Missing id key in action object'' ''Invalid value, action.id must be a string'') (\<lambda>actionID.
     then_do (object_key actionData ''ingredients''
        ''Missing action.ingredients key''
        ''Invalid value for action.ingredients, must be an object'') (\<lambda>actionIngredients.
     then_do (factory_key (actionFactory rm) actionID ''Invalid action ID: '') (\<lambda>w.
     Inr (name, desc, triggerID, triggerIngredients, actionID, actionIngredients)))))))))))"

definition UnmarshalNewRecipe ::
  "state \<Rightarrow> string \<Rightarrow> (string \<times> ivalue) list \<Rightarrow> (error + Recipe) \<times> state" where
  "UnmarshalNewRecipe rm newID data =
     (case UnmarshalNewRecipe_keys rm data of
        Inl err \<Rightarrow> (Inl err, rm)
      | Inr (name, desc, triggerID, triggerIngredients, actionID, actionIngredients) \<Rightarrow>
          (case triggerFactory rm triggerID of
             None \<Rightarrow> (Inl (Panic ''invalid memory address or nil pointer dereference''), rm)
           | Some tv \<Rightarrow>
               (case actionFactory rm actionID of
                  None \<Rightarrow> (Inl (Panic ''invalid memory address or nil pointer dereference''), rm)
                | Some av \<Rightarrow>
                    (case alloc rm (New_trigger tv) of
                       (trigger, rm1) \<Rightarrow>
                         (case setIngredients (Ingredients (heap rm1 ! trigger)) triggerIngredients
                                 (inst_fields (heap rm1 ! trigger)) of
                            (Some err, flds) \<Rightarrow> (Inl err, set_fields rm1 trigger flds)
                          | (None, flds) \<Rightarrow>
                              (case setIngredients (Ingredients (New_action av)) actionIngredients
                                      (inst_fields (New_action av)) of
                                 (Some err, aflds) \<Rightarrow> (Inl err, set_fields rm1 trigger flds)
                               | (None, aflds) \<Rightarrow>
                                   NewRecipe (set_fields rm1 trigger flds) newID name desc True
                                     trigger ((New_action av)\<lparr>inst_fields := aflds\<rparr>)))))))"

text \<open>
  \<^verbatim>\<open>buildTriggerFactory\<close> and \<^verbatim>\<open>buildActionFactory\<close>: every variant of every cook
  book under its type tag, a later one replacing an earlier one with the same tag.
\<close>

record CookBook =
  cb_Identifiable :: Identifiable
  LogoURL :: string
  Triggers :: "variant list"
  Actions :: "variant list"

definition buildTriggerFactory :: "CookBook list \<Rightarrow> (string \<rightharpoonup> variant)" where
  "buildTriggerFactory cookBooks =
     fold (\<lambda>cookBook factory. fold (\<lambda>t f. f(vType t \<mapsto> t)) (Triggers cookBook) factory)
       cookBooks Map.empty"

definition buildActionFactory :: "CookBook list \<Rightarrow> (string \<rightharpoonup> variant)" where
  "buildActionFactory cookBooks =
     fold (\<lambda>cookBook factory. fold (\<lambda>a f. f(vType a \<mapsto> a)) (Actions cookBook) factory)
       cookBooks Map.empty"

section \<open>Notions used in the statements\<close>

text \<open>
  The kind of a field, and the kinds of all fields of a struct in their order: what Go's
  static types fix for every value of a struct type.
\<close>

datatype kind = KString | KBool | KInt | KFloat | KDuration | KTime

fun kind_of :: "gvalue \<Rightarrow> kind" where
  "kind_of (GString s) = KString"
| "kind_of (GBool b) = KBool"
| "kind_of (GInt n) = KInt"
| "kind_of (GFloat x) = KFloat"
| "kind_of (GDuration n) = KDuration"
| "kind_of (GTime t) = KTime"

definition field_kinds :: "struct \<Rightarrow> (string \<times> kind) list" where
  "field_kinds s = map (\<lambda>(f, v). (f, kind_of v)) s"










text \<open>
  \<open>preserves rm rm'\<close>: everything that existed in \<open>rm\<close> is the same in \<open>rm'\<close>, the recipe
  list, the broker's consumers, the files and every trigger object; the store of \<open>rm'\<close>
  may hold objects that \<open>rm\<close> did not have.
\<close>

definition preserves :: "state \<Rightarrow> state \<Rightarrow> bool" where
  "preserves rm rm' =
     (Recipes rm' = Recipes rm \<and> dataPath rm' = dataPath rm \<and>
      triggerFactory rm' = triggerFactory rm \<and> actionFactory rm' = actionFactory rm \<and>
      eventBroker rm' = eventBroker rm \<and> files rm' = files rm \<and>
      unwritable rm' = unwritable rm \<and>
      take (length (heap rm)) (heap rm') = heap rm)"

text \<open>
  Section 4.3 of the specification in its own words: the required keys of a submission in
  the order in which they are validated, each with the test that it is violated and the
  message of the violation; the first violation is the one reported.
\<close>

definition is_string :: "(string \<times> ivalue) list \<Rightarrow> string \<Rightarrow> bool" where
  "is_string m k = (case map_of m k of Some (IString s) \<Rightarrow> True | _ \<Rightarrow> False)"

definition is_object :: "(string \<times> ivalue) list \<Rightarrow> string \<Rightarrow> bool" where
  "is_object m k = (case map_of m k of Some (IObject kvs) \<Rightarrow> True | _ \<Rightarrow> False)"

definition the_string :: "(string \<times> ivalue) list \<Rightarrow> string \<Rightarrow> string" where
  "the_string m k = (case map_of m k of Some (IString s) \<Rightarrow> s | _ \<Rightarrow> [])"

definition the_object :: "(string \<times> ivalue) list \<Rightarrow> string \<Rightarrow> (string \<times> ivalue) list" where
  "the_object m k = (case map_of m k of Some (IObject kvs) \<Rightarrow> kvs | _ \<Rightarrow> [])"

definition required_key_checks :: "state \<Rightarrow> (string \<times> ivalue) list \<Rightarrow> (bool \<times> string) list" where
  "required_key_checks rm data =
     (let t = the_object data ''trigger''; a = the_object data ''action'' in
      [(map_of data ''name'' = None, ''Missing name key''),
       (\<not> is_string data ''name'', ''Invalid value for name, must be a string''),
       (map_of data ''description'' = None, ''Missing description key''),
       (\<not> is_string data ''description'', ''Invalid value for description, must be a string''),
       (map_of data ''trigger'' = None, ''Missing trigger key''),
       (\<not> is_object data ''trigger'', ''Invalid value for trigger, must be an object''),
       (map_of t ''id'' = None, ''Missing id key in trigger object''),
       (\<not> is_string t ''id'', ''Invalid value, trigger.id must be a string''),
       (map_of t ''ingredients'' = None, ''Missing trigger.ingredients key''),
       (\<not> is_object t ''ingredients'', ''Invalid value for trigger.ingredients, must be an object''),
       (triggerFactory rm (the_string t ''id'') = None, ''Invalid trigger ID: '' @ the_string t ''id''),
       (map_of data ''action'' = None, ''Missing action key''),
       (\<not> is_object data ''action'', ''Invalid value for action, must be an object''),
       (map_of a ''id'' = None, ''Missing id key in action object''),
       (\<not> is_string a ''id'', ''Invalid value, action.id must be a string''),
       (map_of a ''ingredients'' = None, ''Missing action.ingredients key''),
       (\<not> is_object a ''ingredients'', ''Invalid value for action.ingredients, must be an object''),
       (actionFactory rm (the_string a ''id'') = None, ''Invalid action ID: '' @ the_string a ''id'')])"

definition first_violation :: "state \<Rightarrow> (string \<times> ivalue) list \<Rightarrow> string option" where
  "first_violation rm data = map_option snd (find fst (required_key_checks rm data))"



section \<open>Example inputs\<close>

text \<open>Concrete values at which the theorems below are instantiated.\<close>

definition ex_zone :: Zone where
  "ex_zone = \<lparr>zone_ID = ''z1'', zone_Address = ''1'', zone_Name = ''Kitchen''\<rparr>"

definition ex_button :: Button where
  "ex_button = \<lparr>button_ID = ''b1'', button_Address = ''2''\<rparr>"

definition ex_sensor :: Sensor where
  "ex_sensor = \<lparr>sensor_ID = ''s1'', sensor_Address = ''3''\<rparr>"

definition ex_keypad :: Device where
  "ex_keypad = NewDevice ''d2'' ''Keypad'' [] ''kp1'' ''Keypad'' ''1.0'' ''4'' None"

definition ex_hub :: Device where
  "ex_hub = NewDevice ''d1'' ''Hub'' [] ''tcp600gwb'' ''Gateway'' ''1.0'' ''192.168.0.9:23'' None"

definition ex_hub_full :: Device where
  "ex_hub_full =
     Device ''d1'' ''192.168.0.9:23'' ''Hub'' [] ''Gateway'' ''tcp600gwb'' ''1.0''
       [''2'' \<mapsto> ex_button] [''4'' \<mapsto> ex_keypad] [''1'' \<mapsto> ex_zone] [''3'' \<mapsto> ex_sensor] None"

definition ex_tagged_item :: struct_type where
  "ex_tagged_item =
     [(''Name'', ''json:'' @ [CHR 0x22] @ ''name'' @ [CHR 0x22]),
      (''Level'', ''json:'' @ [CHR 0x22] @ ''level'' @ [CHR 0x22] @ '' xml:'' @ [CHR 0x22] @ ''l'' @ [CHR 0x22])]"

definition ex_errors :: Errors where
  "ex_errors =
     \<lparr>Errors = [\<lparr>MSG = ''required field'', Field = ''Name''\<rparr>,
                \<lparr>MSG = ''must be greater than 50'', Field = ''Level''\<rparr>,
                \<lparr>MSG = ''too long'', Field = ''Name''\<rparr>]\<rparr>"

definition ex_unnamed_device :: Device where
  "ex_unnamed_device = NewDevice ''d3'' [] [] ''tcp600gwb'' ''Gateway'' ''1.0'' ''10.0.0.2'' None"

definition ex_bus :: "nat EvtBus" where
  "ex_bus =
     \<lparr>enqueueFilters =
        [\<lparr>ef_featureID = ''f1'', ef_predicate = (\<lambda>e. True), ef_delay = 5000000000\<rparr>,
         \<lparr>ef_featureID = ''f2'', ef_predicate = (\<lambda>e. True), ef_delay = 1000000000\<rparr>],
      queue = []\<rparr>"

text \<open>
  The trigger types are not among the sources; the example trigger has one ingredient of
  each type that \<^verbatim>\<open>setIngredients\<close> knows but float, which the example action has.
\<close>

definition ex_ingredient :: "string \<Rightarrow> string \<Rightarrow> bool \<Rightarrow> Ingredient" where
  "ex_ingredient i t req =
     \<lparr>ing_Identifiable = \<lparr>ID = i, Name = i, Description = []\<rparr>,
      ing_Type = t, ing_Required = req, ing_Reference = []\<rparr>"

definition ex_trigger_variant :: variant where
  "ex_trigger_variant =
     \<lparr>vType = ''gohome.ExampleTrigger'',
      vIngredients =
        [ex_ingredient ''Label'' ''string'' True,
         ex_ingredient ''Repeat'' ''boolean'' False,
         ex_ingredient ''Count'' ''integer'' False,
         ex_ingredient ''Hold'' ''duration'' True,
         ex_ingredient ''At'' ''datetime'' False],
      vZero =
        [(''Label'', GString []), (''Repeat'', GBool False), (''Count'', GInt 0),
         (''Hold'', GDuration 0), (''At'', GTime ''0001-01-01T00:00:00Z'')]\<rparr>"

definition ex_trigger :: trigger where
  "ex_trigger =
     \<lparr>inst_variant = ex_trigger_variant,
      inst_fields =
        [(''Label'', GString ''front door''), (''Repeat'', GBool True), (''Count'', GInt 3),
         (''Hold'', GDuration 1500000000), (''At'', GTime ''0001-01-01T00:00:00Z'')],
      trg_Enabled = True, trg_Started = True\<rparr>"

definition ex_trigger_odd :: trigger where
  "ex_trigger_odd =
     \<lparr>inst_variant = ex_trigger_variant,
      inst_fields =
        [(''Label'', GString ''back door''), (''Repeat'', GBool False), (''Count'', GInt 1),
         (''Hold'', GDuration 2500000), (''At'', GTime ''2016-05-01T20:00:00Z'')],
      trg_Enabled = True, trg_Started = True\<rparr>"

definition ex_action :: inst where
  "ex_action =
     \<lparr>inst_variant = ZoneSetLevelAction,
      inst_fields = [(''ZoneID'', GString ''z1''), (''Level'', GFloat (Finite 75))]\<rparr>"

definition ex_action_nan :: inst where
  "ex_action_nan =
     \<lparr>inst_variant = ZoneSetLevelAction,
      inst_fields = [(''ZoneID'', GString ''z1''), (''Level'', GFloat NotFinite)]\<rparr>"

definition ex_recipe :: Recipe where
  "ex_recipe =
     \<lparr>rcp_Identifiable = \<lparr>ID = ''r1'', Name = ''Evening Lights'', Description = ''dim''\<rparr>,
      Trigger = 0, Action = ex_action\<rparr>"

definition ex_recipe_odd :: Recipe where
  "ex_recipe_odd =
     \<lparr>rcp_Identifiable = \<lparr>ID = ''r2'', Name = ''Back Door'', Description = []\<rparr>,
      Trigger = 1, Action = ex_action\<rparr>"

definition ex_recipe_nan :: Recipe where
  "ex_recipe_nan =
     \<lparr>rcp_Identifiable = \<lparr>ID = ''r3'', Name = ''Broken'', Description = []\<rparr>,
      Trigger = 0, Action = ex_action_nan\<rparr>"

definition ex_recipe_ro :: Recipe where
  "ex_recipe_ro =
     \<lparr>rcp_Identifiable = \<lparr>ID = ''r4'', Name = ''Read Only'', Description = []\<rparr>,
      Trigger = 0, Action = ex_action\<rparr>"

definition ex_cookbook :: CookBook where
  "ex_cookbook =
     \<lparr>cb_Identifiable = \<lparr>ID = ''1'', Name = ''Example'', Description = []\<rparr>,
      LogoURL = ''example.png'',
      Triggers = [ex_trigger_variant],
      Actions = [ZoneSetLevelAction]\<rparr>"

definition ex_rm :: state where
  "ex_rm =
     \<lparr>Recipes = [ex_recipe, ex_recipe_odd],
      dataPath = ''/data'',
      triggerFactory = buildTriggerFactory [ex_cookbook],
      actionFactory = buildActionFactory [ex_cookbook],
      eventBroker = [0, 1],
      heap = [ex_trigger, ex_trigger_odd],
      files = [''/data/r2.json'' \<mapsto> Malformed],
      unwritable = {''/data/r4.json''}\<rparr>"

definition ex_submission :: "(string \<times> ivalue) list" where
  "ex_submission =
     [(''name'', IString ''Evening Lights''),
      (''description'', IString ''dim the kitchen''),
      (''trigger'', IObject
         [(''id'', IString ''gohome.ExampleTrigger''),
          (''ingredients'', IObject [(''Label'', IString ''front door''), (''Hold'', INumber 1500)])]),
      (''action'', IObject
         [(''id'', IString ''gohome.ZoneSetLevelAction''),
          (''ingredients'', IObject [(''ZoneID'', IString ''z1''), (''Level'', INumber 75)])])]"

definition ex_submission_no_description :: "(string \<times> ivalue) list" where
  "ex_submission_no_description =
     [(''name'', IString ''Evening Lights''), (''trigger'', IString ''gohome.ExampleTrigger'')]"

definition ex_submission_unbound :: "(string \<times> ivalue) list" where
  "ex_submission_unbound =
     [(''name'', IString ''Evening Lights''),
      (''description'', IString ''dim the kitchen''),
      (''trigger'', IObject
         [(''id'', IString ''gohome.ExampleTrigger''),
          (''ingredients'', IObject [(''Label'', IString ''front door''), (''Hold'', IString ''1500'')])]),
      (''action'', IObject
         [(''id'', IString ''gohome.ZoneSetLevelAction''),
          (''ingredients'', IObject [(''ZoneID'', IString ''z1''), (''Level'', INumber 75)])])]"

section \<open>Properties\<close>

subsection \<open>Adding children to a device\<close>

lemma set_Zones_sel:
  "Zones (set_Zones m d) = m" "Buttons (set_Zones m d) = Buttons d"
  "Devices (set_Zones m d) = Devices d" "Sensors (set_Zones m d) = Sensors d"
  by (cases d; simp)+

lemma set_Buttons_sel:
  "Buttons (set_Buttons m d) = m" "Zones (set_Buttons m d) = Zones d"
  "Devices (set_Buttons m d) = Devices d" "Sensors (set_Buttons m d) = Sensors d"
  by (cases d; simp)+

lemma set_Devices_sel:
  "Devices (set_Devices m d) = m" "Zones (set_Devices m d) = Zones d"
  "Buttons (set_Devices m d) = Buttons d" "Sensors (set_Devices m d) = Sensors d"
  by (cases d; simp)+

lemma set_Sensors_sel:
  "Sensors (set_Sensors m d) = m" "Zones (set_Sensors m d) = Zones d"
  "Buttons (set_Sensors m d) = Buttons d" "Devices (set_Sensors m d) = Devices d"
  by (cases d; simp)+

text \<open>
  C8. For every device and every child zone, button, device or sensor: when a child of the
  same kind is already stored under the new child's address, the Add operation returns a
  descriptive error and the device (with all four collections) is unchanged; when the
  address is fresh, it returns no error, the child is stored under its address, and the
  other three collections are unchanged.
\<close>

theorem Add_child_unique_address:
  "(Zones d (zone_Address z) \<noteq> None \<longrightarrow>
      AddZone d z =
        (Some (ErrValidation \<lparr>Errors = [\<lparr>MSG = ''device already has a zone with the same address ['' @
            zone_Address z @ ''], must be unique'', Field = ''Address''\<rparr>]\<rparr>), d)) \<and>
   (Zones d (zone_Address z) = None \<longrightarrow>
      fst (AddZone d z) = None \<and>
      Zones (snd (AddZone d z)) = (Zones d)(zone_Address z \<mapsto> z) \<and>
      Buttons (snd (AddZone d z)) = Buttons d \<and> Devices (snd (AddZone d z)) = Devices d \<and>
      Sensors (snd (AddZone d z)) = Sensors d) \<and>
   (Buttons d (button_Address b) \<noteq> None \<longrightarrow>
      AddButton d b =
        (Some (ErrMsg (''button with address: '' @ button_Address b @
           '' already added to parent device'')), d)) \<and>
   (Buttons d (button_Address b) = None \<longrightarrow>
      fst (AddButton d b) = None \<and>
      Buttons (snd (AddButton d b)) = (Buttons d)(button_Address b \<mapsto> b) \<and>
      Zones (snd (AddButton d b)) = Zones d \<and> Devices (snd (AddButton d b)) = Devices d \<and>
      Sensors (snd (AddButton d b)) = Sensors d) \<and>
   (Devices d (dev_Address cd) \<noteq> None \<longrightarrow>
      AddDevice d cd =
        (Some (ErrMsg (''device with address: '' @ dev_Address cd @
           '' already added to parent device'')), d)) \<and>
   (Devices d (dev_Address cd) = None \<longrightarrow>
      fst (AddDevice d cd) = None \<and>
      Devices (snd (AddDevice d cd)) = (Devices d)(dev_Address cd \<mapsto> cd) \<and>
      Zones (snd (AddDevice d cd)) = Zones d \<and> Buttons (snd (AddDevice d cd)) = Buttons d \<and>
      Sensors (snd (AddDevice d cd)) = Sensors d) \<and>
   (Sensors d (sensor_Address sn) \<noteq> None \<longrightarrow>
      AddSensor d sn =
        (Some (ErrMsg (''sensor with address: '' @ sensor_Address sn @
           '' already added to device'')), d)) \<and>
   (Sensors d (sensor_Address sn) = None \<longrightarrow>
      fst (AddSensor d sn) = None \<and>
      Sensors (snd (AddSensor d sn)) = (Sensors d)(sensor_Address sn \<mapsto> sn) \<and>
      Zones (snd (AddSensor d sn)) = Zones d \<and> Buttons (snd (AddSensor d sn)) = Buttons d \<and>
      Devices (snd (AddSensor d sn)) = Devices d)"
proof -
  have zone_dup: "Zones d (zone_Address z) \<noteq> None \<longrightarrow>
      AddZone d z =
        (Some (ErrValidation \<lparr>Errors = [\<lparr>MSG = ''device already has a zone with the same address ['' @
            zone_Address z @ ''], must be unique'', Field = ''Address''\<rparr>]\<rparr>), d)"
    by (auto simp: AddZone_def Add_def)
  have zone_fresh: "Zones d (zone_Address z) = None \<longrightarrow>
      fst (AddZone d z) = None \<and>
      Zones (snd (AddZone d z)) = (Zones d)(zone_Address z \<mapsto> z) \<and>
      Buttons (snd (AddZone d z)) = Buttons d \<and> Devices (snd (AddZone d z)) = Devices d \<and>
      Sensors (snd (AddZone d z)) = Sensors d"
    by (simp add: AddZone_def set_Zones_sel)
  have button_dup: "Buttons d (button_Address b) \<noteq> None \<longrightarrow>
      AddButton d b =
        (Some (ErrMsg (''button with address: '' @ button_Address b @
           '' already added to parent device'')), d)"
    by (auto simp: AddButton_def)
  have button_fresh: "Buttons d (button_Address b) = None \<longrightarrow>
      fst (AddButton d b) = None \<and>
      Buttons (snd (AddButton d b)) = (Buttons d)(button_Address b \<mapsto> b) \<and>
      Zones (snd (AddButton d b)) = Zones d \<and> Devices (snd (AddButton d b)) = Devices d \<and>
      Sensors (snd (AddButton d b)) = Sensors d"
    by (simp add: AddButton_def set_Buttons_sel)
  have device_dup: "Devices d (dev_Address cd) \<noteq> None \<longrightarrow>
      AddDevice d cd =
        (Some (ErrMsg (''device with address: '' @ dev_Address cd @
           '' already added to parent device'')), d)"
    by (auto simp: AddDevice_def)
  have device_fresh: "Devices d (dev_Address cd) = None \<longrightarrow>
      fst (AddDevice d cd) = None \<and>
      Devices (snd (AddDevice d cd)) = (Devices d)(dev_Address cd \<mapsto> cd) \<and>
      Zones (snd (AddDevice d cd)) = Zones d \<and> Buttons (snd (AddDevice d cd)) = Buttons d \<and>
      Sensors (snd (AddDevice d cd)) = Sensors d"
    by (simp add: AddDevice_def set_Devices_sel)
  have sensor_dup: "Sensors d (sensor_Address sn) \<noteq> None \<longrightarrow>
      AddSensor d sn =
        (Some (ErrMsg (''sensor with address: '' @ sensor_Address sn @
           '' already added to device'')), d)"
    by (auto simp: AddSensor_def)
  have sensor_fresh: "Sensors d (sensor_Address sn) = None \<longrightarrow>
      fst (AddSensor d sn) = None \<and>
      Sensors (snd (AddSensor d sn)) = (Sensors d)(sensor_Address sn \<mapsto> sn) \<and>
      Zones (snd (AddSensor d sn)) = Zones d \<and> Buttons (snd (AddSensor d sn)) = Buttons d \<and>
      Devices (snd (AddSensor d sn)) = Devices d"
    by (simp add: AddSensor_def set_Sensors_sel)
  from zone_dup zone_fresh button_dup button_fresh device_dup device_fresh sensor_dup sensor_fresh
  show ?thesis by blast
qed

theorem Add_child_unique_address_witness:
  "fst (AddZone ex_hub ex_zone) = None \<and>
   Zones (snd (AddZone ex_hub ex_zone)) ''1'' = Some ex_zone \<and>
   fst (AddButton ex_hub ex_button) = None \<and>
   Buttons (snd (AddButton ex_hub ex_button)) ''2'' = Some ex_button \<and>
   fst (AddDevice ex_hub ex_keypad) = None \<and>
   Devices (snd (AddDevice ex_hub ex_keypad)) ''4'' = Some ex_keypad \<and>
   fst (AddSensor ex_hub ex_sensor) = None \<and>
   Sensors (snd (AddSensor ex_hub ex_sensor)) ''3'' = Some ex_sensor \<and>
   AddZone ex_hub_full ex_zone =
     (Some (ErrValidation \<lparr>Errors = [\<lparr>MSG =
        ''device already has a zone with the same address [1], must be unique'',
        Field = ''Address''\<rparr>]\<rparr>), ex_hub_full) \<and>
   AddButton ex_hub_full ex_button =
     (Some (ErrMsg ''button with address: 2 already added to parent device''), ex_hub_full) \<and>
   AddDevice ex_hub_full ex_keypad =
     (Some (ErrMsg ''device with address: 4 already added to parent device''), ex_hub_full) \<and>
   AddSensor ex_hub_full ex_sensor =
     (Some (ErrMsg ''sensor with address: 3 already added to device''), ex_hub_full)"
proof -
  have fresh: "Zones ex_hub (zone_Address ex_zone) = None"
    "Buttons ex_hub (button_Address ex_button) = None"
    "Devices ex_hub (dev_Address ex_keypad) = None"
    "Sensors ex_hub (sensor_Address ex_sensor) = None"
    by (simp_all add: ex_hub_def NewDevice_def)
  have dup: "Zones ex_hub_full (zone_Address ex_zone) \<noteq> None"
    "Buttons ex_hub_full (button_Address ex_button) \<noteq> None"
    "Devices ex_hub_full (dev_Address ex_keypad) \<noteq> None"
    "Sensors ex_hub_full (sensor_Address ex_sensor) \<noteq> None"
    by (simp_all add: ex_hub_full_def ex_zone_def ex_button_def ex_keypad_def ex_sensor_def
        NewDevice_def)
  have addr: "zone_Address ex_zone = ''1''" "button_Address ex_button = ''2''"
    "dev_Address ex_keypad = ''4''" "sensor_Address ex_sensor = ''3''"
    by (simp_all add: ex_zone_def ex_button_def ex_keypad_def ex_sensor_def NewDevice_def)
  from fresh dup addr
    Add_child_unique_address [of ex_hub ex_zone ex_button ex_keypad ex_sensor]
    Add_child_unique_address [of ex_hub_full ex_zone ex_button ex_keypad ex_sensor]
  show ?thesis by simp
qed

subsection \<open>The validation error format\<close>

lemma Split_nonempty: "Split s c \<noteq> []"
  by (induction s) (auto split: list.splits)

lemma NewErrorJSON_loop_lookup:
  "errors (NewErrorJSON_loop item clientID es acc) k =
     (let rs = filter (resolves_to item clientID k) es
      in if rs = [] then errors acc k else Some [''message'' \<mapsto> MSG (last rs)])"
proof (induction es arbitrary: acc)
  case Nil
  show ?case by simp
next
  case (Cons e es)
  show ?case
    by (cases "JSONTagForField item (Field e)")
       (simp_all add: Cons.IH resolves_to_def Let_def)
qed

text \<open>
  C9 (as amended). For every item, client ID and collection of validation errors,
  \<^verbatim>\<open>NewErrorJSON\<close> returns an object with the single field \<open>errors\<close>. Its entry at a key
  \<open>k\<close> is decided by the errors whose field name is a field of the item's struct with a tag
  that splits at the colon into exactly two parts and whose key \<^verbatim>\<open>clientID.tag\<close> (quotes
  removed) is \<open>k\<close>: with no such error there is no entry, otherwise the entry is the one-key
  object \<open>message\<close> holding the message of the last such error. Errors whose field cannot
  be resolved are left out.
\<close>

theorem NewErrorJSON_entries:
  "errors (NewErrorJSON item clientID errs) k =
     (let rs = filter (resolves_to item clientID k) (Errors errs)
      in if rs = [] then None else Some [''message'' \<mapsto> MSG (last rs)])"
  by (simp add: NewErrorJSON_def NewErrorJSON_loop_lookup Let_def)

lemma tag_Name: "JSONTagForField ex_tagged_item ''Name'' = Inr ''name''"
  by (simp add: JSONTagForField_def ex_tagged_item_def)

lemma tag_Level: "JSONTagForField ex_tagged_item ''Level'' = Inl (ErrMsg ''unexpected tag format'')"
  by (simp add: JSONTagForField_def ex_tagged_item_def)

theorem NewErrorJSON_entries_witness:
  "errors (NewErrorJSON ex_tagged_item ''c1'' ex_errors) ''c1.name'' = Some [''message'' \<mapsto> ''too long''] \<and>
   errors (NewErrorJSON ex_tagged_item ''c1'' ex_errors) ''c1.level'' = None"
  using NewErrorJSON_entries [of ex_tagged_item "''c1''" ex_errors "''c1.name''"]
    NewErrorJSON_entries [of ex_tagged_item "''c1''" ex_errors "''c1.level''"]
  by (simp add: resolves_to_def ex_errors_def tag_Name tag_Level)

text \<open>
  The claim as stated fails on the \<^verbatim>\<open>Device\<close> struct of the sources, whose fields carry
  no tags: the validation error of a device without a name is dropped, and the object
  reports no field at all.
\<close>

lemma tag_Device: "JSONTagForField Device_struct_type ''Name'' = Inl (ErrMsg ''unexpected tag format'')"
  by (simp add: JSONTagForField_def Device_struct_type_def)

theorem NewErrorJSON_counterexample:
  "Validate ex_unnamed_device = Some \<lparr>Errors = [\<lparr>MSG = ''required field'', Field = ''Name''\<rparr>]\<rparr> \<and>
   dom (errors (NewErrorJSON Device_struct_type ''d3''
          \<lparr>Errors = [\<lparr>MSG = ''required field'', Field = ''Name''\<rparr>]\<rparr>)) = {}"
  by (simp add: Validate_def ex_unnamed_device_def NewDevice_def Add_def Has_def
      NewErrorJSON_def tag_Device)

subsection \<open>Suppressing feature reporting\<close>

lemma reporting_filter_iff:
  "reporting_filter fid e = (\<exists>a. e = FeatureReportingEvt fid a)"
  by (cases e) (auto simp: reporting_filter_def)

lemma not_dropped_after_remove:
  "\<not> dropped (RemoveEnqueueFilter bus fid) (FeatureReportingEvt fid a)"
  by (simp add: dropped_def RemoveEnqueueFilter_def event_feature_def list_ex_iff)

text \<open>
  C5. For every bus state, feature ID, attribute map and delay,
  \<^verbatim>\<open>SupressFeatureReporting\<close> removes the filter of the feature first, so that the
  synthetic reporting event with the values just set is handed on even when an older filter
  of the feature would have dropped it (no event is enqueued for a nil attribute map); only
  then does it install the filter, which replaces any filter of that feature, keeps the
  delay, and has a predicate that is true exactly for the reporting events of that feature
  ID. Afterwards a reporting event of the feature is dropped.
\<close>

theorem SupressFeatureReporting_replay_then_suppress:
  "queue (SupressFeatureReporting bus fid attrs delay) =
     queue bus @ (if attrs \<noteq> None then [FeatureReportingEvt fid attrs] else []) \<and>
   enqueueFilters (SupressFeatureReporting bus fid attrs delay) =
     filter (\<lambda>f. ef_featureID f \<noteq> fid) (enqueueFilters bus) @
     [\<lparr>ef_featureID = fid, ef_predicate = reporting_filter fid, ef_delay = delay\<rparr>] \<and>
   (\<forall>e. reporting_filter fid e = (\<exists>a. e = FeatureReportingEvt fid a)) \<and>
   (\<forall>a. Enqueue (SupressFeatureReporting bus fid attrs delay) (FeatureReportingEvt fid a) =
        SupressFeatureReporting bus fid attrs delay)"
proof -
  let ?b1 = "RemoveEnqueueFilter bus fid"
  have q: "queue (SupressFeatureReporting bus fid attrs delay) =
     queue bus @ (if attrs \<noteq> None then [FeatureReportingEvt fid attrs] else [])"
    using not_dropped_after_remove [of bus fid attrs]
    by (simp add: SupressFeatureReporting_def Let_def AddEnqueueFilter_def Enqueue_def)
       (simp add: RemoveEnqueueFilter_def)
  have f: "enqueueFilters (SupressFeatureReporting bus fid attrs delay) =
     filter (\<lambda>f. ef_featureID f \<noteq> fid) (enqueueFilters bus) @
     [\<lparr>ef_featureID = fid, ef_predicate = reporting_filter fid, ef_delay = delay\<rparr>]"
    by (simp add: SupressFeatureReporting_def Let_def AddEnqueueFilter_def Enqueue_def
        RemoveEnqueueFilter_def)
  have d: "dropped (SupressFeatureReporting bus fid attrs delay) (FeatureReportingEvt fid a)" for a
    by (simp add: dropped_def f event_feature_def reporting_filter_def)
  have p: "\<forall>e. reporting_filter fid e = (\<exists>a. e = FeatureReportingEvt fid a)"
    by (simp add: reporting_filter_iff)
  have e: "\<forall>a. Enqueue (SupressFeatureReporting bus fid attrs delay) (FeatureReportingEvt fid a) =
        SupressFeatureReporting bus fid attrs delay"
    using d by (simp add: Enqueue_def)
  from q f p e show ?thesis by blast
qed

theorem SupressFeatureReporting_witness:
  "queue (SupressFeatureReporting ex_bus ''f1'' (Some [''level'' \<mapsto> 75]) 3000000000) =
     [FeatureReportingEvt ''f1'' (Some [''level'' \<mapsto> 75])] \<and>
   queue (SupressFeatureReporting ex_bus ''f1'' None 3000000000) = [] \<and>
   map ef_featureID (enqueueFilters (SupressFeatureReporting ex_bus ''f1'' None 3000000000)) =
     [''f2'', ''f1''] \<and>
   dropped ex_bus (FeatureReportingEvt ''f1'' (Some [''level'' \<mapsto> 75]))"
proof -
  have q0: "queue ex_bus = []"
    by (simp add: ex_bus_def)
  have f0: "map ef_featureID (filter (\<lambda>f. ef_featureID f \<noteq> ''f1'') (enqueueFilters ex_bus)) = [''f2'']"
    by (simp add: ex_bus_def)
  have d0: "dropped ex_bus (FeatureReportingEvt ''f1'' (Some [''level'' \<mapsto> 75]))"
    by (simp add: ex_bus_def dropped_def event_feature_def)
  note A = SupressFeatureReporting_replay_then_suppress [of ex_bus "''f1''" "Some [''level'' \<mapsto> 75]" 3000000000]
  note B = SupressFeatureReporting_replay_then_suppress [of ex_bus "''f1''" None 3000000000]
  have 1: "queue (SupressFeatureReporting ex_bus ''f1'' (Some [''level'' \<mapsto> 75]) 3000000000) =
     [FeatureReportingEvt ''f1'' (Some [''level'' \<mapsto> 75])]"
    using A [THEN conjunct1] q0 by simp
  have 2: "queue (SupressFeatureReporting ex_bus ''f1'' None 3000000000) = []"
    using B [THEN conjunct1] q0 by simp
  have 3: "map ef_featureID (enqueueFilters (SupressFeatureReporting ex_bus ''f1'' None 3000000000)) =
     [''f2'', ''f1'']"
    using B [THEN conjunct2, THEN conjunct1] f0 by simp
  from 1 2 3 d0 show ?thesis by blast
qed

subsection \<open>Saving, enabling and deleting recipes\<close>

lemma WriteFile_cases:
  "WriteFile s p b = (if p \<in> unwritable s then (Some (ErrPermission p), s)
      else (None, s\<lparr>files := (files s)(p \<mapsto> b)\<rparr>))"
  by (simp add: WriteFile_def)

lemma SaveRecipe_error_state:
  "fst (SaveRecipe rm r a) = Some err \<Longrightarrow> snd (SaveRecipe rm r a) = rm"
  by (auto simp: SaveRecipe_def Let_def WriteFile_def split: sum.splits if_splits)

lemma SaveRecipe_heap: "heap (snd (SaveRecipe rm r a)) = heap rm"
  by (auto simp: SaveRecipe_def Let_def WriteFile_def split: sum.splits if_splits)

lemma SaveRecipe_unwritable:
  "recipePath rm r \<in> unwritable rm \<Longrightarrow> fst (SaveRecipe rm r a) \<noteq> None"
  by (auto simp: SaveRecipe_def Let_def WriteFile_def split: sum.splits if_splits)

lemma SaveRecipe_ok:
  assumes "fst (SaveRecipe rm r a) = None"
  shows "\<exists>tv av tf af.
     Trigger r < length (heap rm) \<and>
     getIngredientValueMap (heap rm ! Trigger r) = Inr tv \<and>
     getIngredientValueMap (Action r) = Inr av \<and>
     encode_fields tv = Some tf \<and> encode_fields av = Some af \<and>
     recipePath rm r \<notin> unwritable rm \<and>
     snd (SaveRecipe rm r a) =
       (rm\<lparr>files := (files rm)(recipePath rm r \<mapsto> Document
           \<lparr>json_Identifiable = rcp_Identifiable r,
            json_enabled = Enabled rm (Trigger r),
            json_Trigger = \<lparr>w_type = Type (heap rm ! Trigger r), w_fields = tf\<rparr>,
            json_Action = \<lparr>w_type = Type (Action r), w_fields = af\<rparr>\<rparr>)\<rparr>)
        \<lparr>Recipes := (if a then Recipes rm @ [r] else Recipes rm)\<rparr>"
  using assms
  by (auto simp: SaveRecipe_def Let_def WriteFile_def json_Marshal_def
      split: sum.splits if_splits option.splits)

lemma SaveRecipe_marshal_error:
  assumes "Trigger r < length (heap rm)"
    and "getIngredientValueMap (heap rm ! Trigger r) = Inr tv"
    and "getIngredientValueMap (Action r) = Inr av"
    and "encode_fields tv = None \<or> encode_fields av = None"
  shows "SaveRecipe rm r a = (Some ErrMarshal, rm)"
  using assms
  by (auto simp: SaveRecipe_def Let_def json_Marshal_def split: option.splits)



lemma DeleteRecipe_missing:
  "files rm (recipePath rm r) = None \<Longrightarrow>
   DeleteRecipe rm r = (Some (ErrNotExist (recipePath rm r)), rm)"
  by (simp add: DeleteRecipe_def Remove_def)



text \<open>The example state, evaluated.\<close>

lemmas ex_defs = ex_rm_def ex_recipe_def ex_recipe_odd_def ex_recipe_ro_def ex_recipe_nan_def
  ex_trigger_def ex_trigger_odd_def ex_action_def ex_action_nan_def ex_trigger_variant_def
  ex_ingredient_def ZoneSetLevelAction_def ex_cookbook_def

lemma ex_getIngredientValueMap_trigger:
  "getIngredientValueMap ex_trigger =
     Inr [(''Label'', GString ''front door''), (''Repeat'', GBool True), (''Count'', GInt 3),
          (''Hold'', GInt 1500), (''At'', GTime ''0001-01-01T00:00:00Z'')]"
  by (simp add: getIngredientValueMap_def Ingredients_def ex_defs signed_divide_int_def)

lemma ex_getIngredientValueMap_action:
  "getIngredientValueMap ex_action = Inr [(''Level'', GFloat (Finite 75)), (''ZoneID'', GString ''z1'')]"
  by (simp add: getIngredientValueMap_def Ingredients_def ex_defs)

lemma ex_getIngredientValueMap_action_nan:
  "getIngredientValueMap ex_action_nan = Inr [(''Level'', GFloat NotFinite), (''ZoneID'', GString ''z1'')]"
  by (simp add: getIngredientValueMap_def Ingredients_def ex_defs)

lemma ex_encode_trigger:
  "encode_fields [(''Label'', GString ''front door''), (''Repeat'', GBool True), (''Count'', GInt 3),
          (''Hold'', GInt 1500), (''At'', GTime ''0001-01-01T00:00:00Z'')] =
   Some [(''Label'', IString ''front door''), (''Repeat'', IBool True), (''Count'', INumber 3),
          (''Hold'', INumber 1500), (''At'', IString ''0001-01-01T00:00:00Z'')]"
  by (simp add: float64_of_int_def)

lemma ex_encode_action:
  "encode_fields [(''Level'', GFloat (Finite 75)), (''ZoneID'', GString ''z1'')] =
   Some [(''Level'', INumber 75), (''ZoneID'', IString ''z1'')]"
  by simp

lemma ex_heap: "heap ex_rm = [ex_trigger, ex_trigger_odd]" "Trigger ex_recipe = 0"
  "Trigger ex_recipe_odd = 1" "Trigger ex_recipe_ro = 0" "Trigger ex_recipe_nan = 0"
  "Action ex_recipe = ex_action" "Action ex_recipe_nan = ex_action_nan" "Action ex_recipe_ro = ex_action"
  by (simp_all add: ex_rm_def ex_recipe_def ex_recipe_odd_def ex_recipe_ro_def ex_recipe_nan_def)

lemma ex_paths: "recipePath ex_rm ex_recipe = ''/data/r1.json''"
  "recipePath ex_rm ex_recipe_odd = ''/data/r2.json''"
  "recipePath ex_rm ex_recipe_nan = ''/data/r3.json''"
  "recipePath ex_rm ex_recipe_ro = ''/data/r4.json''"
  by (simp_all add: recipePath_def ex_rm_def ex_recipe_def ex_recipe_odd_def ex_recipe_ro_def ex_recipe_nan_def)

lemma ex_SaveRecipe_ok: "fst (SaveRecipe ex_rm ex_recipe a) = None"
  by (simp add: SaveRecipe_def ex_heap ex_getIngredientValueMap_trigger ex_getIngredientValueMap_action
      json_Marshal_def ex_encode_trigger ex_encode_action WriteFile_def ex_paths Let_def)
     (simp add: ex_rm_def)


lemma getIngredientValueMap_trigger_update [simp]:
  "getIngredientValueMap (t\<lparr>trg_Enabled := b\<rparr>) = getIngredientValueMap t"
  "getIngredientValueMap (t\<lparr>trg_Started := b\<rparr>) = getIngredientValueMap t"
  by (simp_all add: getIngredientValueMap_def Ingredients_def)

lemma ex_EnableRecipe_ok: "fst (SaveRecipe (SetEnabled ex_rm 0 False) ex_recipe False) = None"
  by (simp add: SaveRecipe_def SetEnabled_def ex_heap ex_getIngredientValueMap_trigger
      ex_getIngredientValueMap_action json_Marshal_def ex_encode_trigger ex_encode_action
      WriteFile_def Let_def recipePath_def)
     (simp add: ex_rm_def ex_recipe_def)


text \<open>
  C10. For every recipe saved with \<^verbatim>\<open>appendTo\<close> true: when \<^verbatim>\<open>SaveRecipe\<close> returns an
  error the whole state, the recipe list included, is as before; it returns the encoding
  error when a value of the trigger or of the action cannot be serialised, and an error
  when the file cannot be written; and when it returns no error the recipe is the new last
  element of the list and its file holds a document.
\<close>

theorem SaveRecipe_appends_after_write:
  "(fst (SaveRecipe rm r True) \<noteq> None \<longrightarrow>
      snd (SaveRecipe rm r True) = rm \<and> Recipes (snd (SaveRecipe rm r True)) = Recipes rm) \<and>
   (Trigger r < length (heap rm) \<and>
    getIngredientValueMap (heap rm ! Trigger r) = Inr tv \<and>
    getIngredientValueMap (Action r) = Inr av \<and>
    (encode_fields tv = None \<or> encode_fields av = None) \<longrightarrow>
      fst (SaveRecipe rm r True) = Some ErrMarshal) \<and>
   (recipePath rm r \<in> unwritable rm \<longrightarrow> fst (SaveRecipe rm r True) \<noteq> None) \<and>
   (fst (SaveRecipe rm r True) = None \<longrightarrow>
      Recipes (snd (SaveRecipe rm r True)) = Recipes rm @ [r] \<and>
      (\<exists>d. files (snd (SaveRecipe rm r True)) (recipePath rm r) = Some (Document d)))"
proof -
  have err: "fst (SaveRecipe rm r True) \<noteq> None \<longrightarrow>
      snd (SaveRecipe rm r True) = rm \<and> Recipes (snd (SaveRecipe rm r True)) = Recipes rm"
    using SaveRecipe_error_state [of rm r True] by auto
  have marshal: "Trigger r < length (heap rm) \<and>
    getIngredientValueMap (heap rm ! Trigger r) = Inr tv \<and>
    getIngredientValueMap (Action r) = Inr av \<and>
    (encode_fields tv = None \<or> encode_fields av = None) \<longrightarrow>
      fst (SaveRecipe rm r True) = Some ErrMarshal"
    using SaveRecipe_marshal_error [of r rm tv av True] by auto
  have wr: "recipePath rm r \<in> unwritable rm \<longrightarrow> fst (SaveRecipe rm r True) \<noteq> None"
    using SaveRecipe_unwritable [of rm r True] by blast
  have ok: "fst (SaveRecipe rm r True) = None \<longrightarrow>
      Recipes (snd (SaveRecipe rm r True)) = Recipes rm @ [r] \<and>
      (\<exists>d. files (snd (SaveRecipe rm r True)) (recipePath rm r) = Some (Document d))"
  proof
    assume a: "fst (SaveRecipe rm r True) = None"
    from SaveRecipe_ok [OF a] obtain d where
      "snd (SaveRecipe rm r True) =
         (rm\<lparr>files := (files rm)(recipePath rm r \<mapsto> Document d)\<rparr>)
           \<lparr>Recipes := (if True then Recipes rm @ [r] else Recipes rm)\<rparr>"
      by blast
    then show "Recipes (snd (SaveRecipe rm r True)) = Recipes rm @ [r] \<and>
      (\<exists>d. files (snd (SaveRecipe rm r True)) (recipePath rm r) = Some (Document d))"
      by simp
  qed
  from err marshal wr ok show ?thesis by blast
qed

theorem SaveRecipe_appends_after_write_witness:
  "SaveRecipe ex_rm ex_recipe_nan True = (Some ErrMarshal, ex_rm) \<and>
   fst (SaveRecipe ex_rm ex_recipe_ro True) \<noteq> None \<and>
   Recipes (snd (SaveRecipe ex_rm ex_recipe_ro True)) = [ex_recipe, ex_recipe_odd] \<and>
   fst (SaveRecipe ex_rm ex_recipe True) = None \<and>
   Recipes (snd (SaveRecipe ex_rm ex_recipe True)) = [ex_recipe, ex_recipe_odd, ex_recipe] \<and>
   (\<exists>d. files (snd (SaveRecipe ex_rm ex_recipe True)) ''/data/r1.json'' = Some (Document d))"
proof -
  let ?tv = "[(''Label'', GString ''front door''), (''Repeat'', GBool True), (''Count'', GInt 3),
          (''Hold'', GInt 1500), (''At'', GTime ''0001-01-01T00:00:00Z'')]"
  let ?av = "[(''Level'', GFloat NotFinite), (''ZoneID'', GString ''z1'')]"
  have rs: "Recipes ex_rm = [ex_recipe, ex_recipe_odd]"
    by (simp add: ex_rm_def)
  have nan: "Trigger ex_recipe_nan < length (heap ex_rm) \<and>
    getIngredientValueMap (heap ex_rm ! Trigger ex_recipe_nan) = Inr ?tv \<and>
    getIngredientValueMap (Action ex_recipe_nan) = Inr ?av \<and>
    (encode_fields ?tv = None \<or> encode_fields ?av = None)"
    by (simp add: ex_heap ex_getIngredientValueMap_trigger ex_getIngredientValueMap_action_nan)
  note A = SaveRecipe_appends_after_write [of ex_rm ex_recipe_nan ?tv ?av]
  from A [THEN conjunct2, THEN conjunct1, rule_format, OF nan]
  have a1: "fst (SaveRecipe ex_rm ex_recipe_nan True) = Some ErrMarshal" .
  then have "fst (SaveRecipe ex_rm ex_recipe_nan True) \<noteq> None" by simp
  from A [THEN conjunct1, rule_format, OF this]
  have "snd (SaveRecipe ex_rm ex_recipe_nan True) = ex_rm" by simp
  with a1 have 1: "SaveRecipe ex_rm ex_recipe_nan True = (Some ErrMarshal, ex_rm)"
    by (simp add: prod_eq_iff)
  have ro: "recipePath ex_rm ex_recipe_ro \<in> unwritable ex_rm"
    by (simp add: ex_paths) (simp add: ex_rm_def)
  note B = SaveRecipe_appends_after_write [of ex_rm ex_recipe_ro ?tv ?av]
  from B [THEN conjunct2, THEN conjunct2, THEN conjunct1, rule_format, OF ro]
  have 2: "fst (SaveRecipe ex_rm ex_recipe_ro True) \<noteq> None" .
  from B [THEN conjunct1, rule_format, OF 2] rs
  have 3: "Recipes (snd (SaveRecipe ex_rm ex_recipe_ro True)) = [ex_recipe, ex_recipe_odd]"
    by simp
  note C = SaveRecipe_appends_after_write [of ex_rm ex_recipe ?tv ?av]
  have 4: "fst (SaveRecipe ex_rm ex_recipe True) = None"
    by (rule ex_SaveRecipe_ok)
  note C4 = C [THEN conjunct2, THEN conjunct2, THEN conjunct2, rule_format, OF 4]
  from C4 [THEN conjunct1] rs
  have 5: "Recipes (snd (SaveRecipe ex_rm ex_recipe True)) = [ex_recipe, ex_recipe_odd, ex_recipe]"
    by simp
  from C4 [THEN conjunct2]
  have 6: "\<exists>d. files (snd (SaveRecipe ex_rm ex_recipe True)) ''/data/r1.json'' = Some (Document d)"
    by (simp add: ex_paths)
  from 1 2 3 4 5 6 show ?thesis by blast
qed

text \<open>
  C6. For every recipe with a trigger: \<^verbatim>\<open>EnableRecipe\<close> with the value the trigger's
  enabled flag already has returns nil and leaves the whole state as it is, the files
  included; with the other value it is \<^verbatim>\<open>SaveRecipe\<close> on the state with the flag set, so
  the flag has the new value afterwards, and when no error is returned the recipe's file
  holds a document with that enabled value.
\<close>

theorem EnableRecipe_same_state_noop:
  "Trigger r < length (heap rm) \<Longrightarrow>
   (Enabled rm (Trigger r) = enabled \<longrightarrow> EnableRecipe rm r enabled = (None, rm)) \<and>
   (Enabled rm (Trigger r) \<noteq> enabled \<longrightarrow>
      EnableRecipe rm r enabled = SaveRecipe (SetEnabled rm (Trigger r) enabled) r False \<and>
      Enabled (snd (EnableRecipe rm r enabled)) (Trigger r) = enabled \<and>
      (fst (EnableRecipe rm r enabled) = None \<longrightarrow>
         (\<exists>d. files (snd (EnableRecipe rm r enabled)) (recipePath rm r) = Some (Document d) \<and>
              json_enabled d = enabled \<and> json_Identifiable d = rcp_Identifiable r)))"
proof -
  assume valid: "Trigger r < length (heap rm)"
  let ?rm1 = "SetEnabled rm (Trigger r) enabled"
  have same: "Enabled rm (Trigger r) = enabled \<longrightarrow> EnableRecipe rm r enabled = (None, rm)"
    using valid by (simp add: EnableRecipe_def)
  have diff: "Enabled rm (Trigger r) \<noteq> enabled \<longrightarrow>
      EnableRecipe rm r enabled = SaveRecipe ?rm1 r False"
    using valid by (simp add: EnableRecipe_def)
  have set: "Enabled (snd (SaveRecipe ?rm1 r False)) (Trigger r) = enabled"
    using valid by (simp add: Enabled_def SaveRecipe_heap) (simp add: SetEnabled_def)
  have path: "recipePath ?rm1 r = recipePath rm r"
    by (simp add: recipePath_def SetEnabled_def)
  have written: "\<exists>d. files (snd (SaveRecipe ?rm1 r False)) (recipePath rm r) = Some (Document d) \<and>
              json_enabled d = enabled \<and> json_Identifiable d = rcp_Identifiable r"
    if ok: "fst (SaveRecipe ?rm1 r False) = None"
  proof -
    from SaveRecipe_ok [OF ok] obtain tf af where
      st: "snd (SaveRecipe ?rm1 r False) =
       (?rm1\<lparr>files := (files ?rm1)(recipePath ?rm1 r \<mapsto> Document
           \<lparr>json_Identifiable = rcp_Identifiable r,
            json_enabled = Enabled ?rm1 (Trigger r),
            json_Trigger = \<lparr>w_type = Type (heap ?rm1 ! Trigger r), w_fields = tf\<rparr>,
            json_Action = \<lparr>w_type = Type (Action r), w_fields = af\<rparr>\<rparr>)\<rparr>)
        \<lparr>Recipes := (if False then Recipes ?rm1 @ [r] else Recipes ?rm1)\<rparr>"
      by blast
    have en: "Enabled ?rm1 (Trigger r) = enabled"
      using valid by (simp add: Enabled_def SetEnabled_def)
    show ?thesis
      by (simp add: st path en)
  qed
  from same diff set written show ?thesis by auto
qed

theorem EnableRecipe_witness:
  "EnableRecipe ex_rm ex_recipe True = (None, ex_rm) \<and>
   fst (EnableRecipe ex_rm ex_recipe False) = None \<and>
   Enabled (snd (EnableRecipe ex_rm ex_recipe False)) 0 = False \<and>
   (\<exists>d. files (snd (EnableRecipe ex_rm ex_recipe False)) ''/data/r1.json'' = Some (Document d) \<and>
        json_enabled d = False)"
proof -
  have valid: "Trigger ex_recipe < length (heap ex_rm)"
    by (simp add: ex_heap)
  have en: "Enabled ex_rm (Trigger ex_recipe) = True"
    by (simp add: Enabled_def ex_heap ex_trigger_def)
  then have ne: "Enabled ex_rm (Trigger ex_recipe) \<noteq> False"
    by simp
  note A = EnableRecipe_same_state_noop [OF valid, of True, THEN conjunct1, rule_format, OF en]
  note B = EnableRecipe_same_state_noop [OF valid, of False, THEN conjunct2, rule_format, OF ne]
  from B [THEN conjunct1] ex_EnableRecipe_ok
  have 2: "fst (EnableRecipe ex_rm ex_recipe False) = None"
    by (simp add: ex_heap)
  from B [THEN conjunct2, THEN conjunct1]
  have 3: "Enabled (snd (EnableRecipe ex_rm ex_recipe False)) 0 = False"
    by (simp add: ex_heap)
  from B [THEN conjunct2, THEN conjunct2, rule_format, OF 2]
  have 4: "\<exists>d. files (snd (EnableRecipe ex_rm ex_recipe False)) ''/data/r1.json'' =
      Some (Document d) \<and> json_enabled d = False"
    by (auto simp: ex_paths)
  from A 2 3 4 show ?thesis by blast
qed

text \<open>
  C7. \<^verbatim>\<open>DeleteRecipe\<close> for a recipe whose path holds no file returns the not-found error
  of the removal and leaves the state as it is: the recipe list and the consumers of the
  broker are unchanged.
\<close>

theorem DeleteRecipe_missing_file:
  "files rm (recipePath rm r) = None \<Longrightarrow>
   fst (DeleteRecipe rm r) = Some (ErrNotExist (recipePath rm r)) \<and>
   snd (DeleteRecipe rm r) = rm \<and>
   Recipes (snd (DeleteRecipe rm r)) = Recipes rm \<and>
   eventBroker (snd (DeleteRecipe rm r)) = eventBroker rm"
  by (simp add: DeleteRecipe_missing)

theorem DeleteRecipe_missing_file_witness:
  "fst (DeleteRecipe ex_rm ex_recipe) = Some (ErrNotExist ''/data/r1.json'') \<and>
   Recipes (snd (DeleteRecipe ex_rm ex_recipe)) = [ex_recipe, ex_recipe_odd] \<and>
   eventBroker (snd (DeleteRecipe ex_rm ex_recipe)) = [0, 1]"
proof -
  have "files ex_rm (recipePath ex_rm ex_recipe) = None"
    by (simp add: ex_paths) (simp add: ex_rm_def)
  note A = DeleteRecipe_missing_file [OF this]
  have rs: "Recipes ex_rm = [ex_recipe, ex_recipe_odd]" "eventBroker ex_rm = [0, 1]"
    by (simp_all add: ex_rm_def)
  from A [THEN conjunct1] have 1: "fst (DeleteRecipe ex_rm ex_recipe) = Some (ErrNotExist ''/data/r1.json'')"
    by (simp add: ex_paths)
  from A [THEN conjunct2, THEN conjunct2] rs show ?thesis
    using 1 by simp
qed



subsection \<open>Binding ingredients and submitting a recipe\<close>

lemma field_kinds_update:
  "map_of s f = Some old \<Longrightarrow> kind_of v = kind_of old \<Longrightarrow>
   field_kinds (AList.update f v s) = field_kinds s"
  by (induction s) (auto simp: field_kinds_def)


lemma set_ingredient_kinds:
  "field_kinds (snd (set_ingredient ingredient v s)) = field_kinds s"
  by (auto simp: set_ingredient_def Let_def SetString_def SetBool_def SetInt_def SetFloat_def
      Set_Duration_def field_kinds_update split: ivalue.splits option.splits gvalue.splits)





lemma setIngredients_kinds:
  "field_kinds (snd (setIngredients ings vals s)) = field_kinds s"
proof (induction ings arbitrary: s)
  case Nil
  show ?case by simp
next
  case (Cons ingredient rest)
  show ?case
  proof (cases "map_of vals (ID (ing_Identifiable ingredient))")
    case None
    then show ?thesis by (simp add: Cons.IH)
  next
    case (Some v)
    obtain e s' where r: "set_ingredient ingredient v s = (e, s')"
      by (cases "set_ingredient ingredient v s")
    with set_ingredient_kinds [of ingredient v s] have k: "field_kinds s' = field_kinds s"
      by simp
    show ?thesis
      using Some r k Cons.IH [of s'] by (cases e) simp_all
  qed
qed


lemma preserves_refl: "preserves rm rm"
  by (simp add: preserves_def)

lemma preserves_alloc_set:
  "preserves rm (set_fields (snd (alloc rm t)) (length (heap rm)) flds)"
  by (simp add: preserves_def alloc_def set_fields_def)

lemma preserves_alloc_set_enabled:
  "preserves rm (SetEnabled (set_fields (snd (alloc rm t)) (length (heap rm)) flds) (length (heap rm)) b)"
  by (simp add: preserves_def alloc_def set_fields_def SetEnabled_def)




lemma UnmarshalNewRecipe_preserves: "preserves rm (snd (UnmarshalNewRecipe rm newID data))"
  by (auto simp: UnmarshalNewRecipe_def preserves_refl NewRecipe_def alloc_def
      set_fields_def SetEnabled_def preserves_def
      split: sum.splits prod.splits option.splits)

lemma string_key_cases:
  "string_key m k missing invalid =
     (if map_of m k = None then Inl (ErrMsg missing)
      else if \<not> is_string m k then Inl (ErrMsg invalid)
      else Inr (the_string m k))"
  by (auto simp: string_key_def is_string_def the_string_def split: option.splits ivalue.splits)

lemma object_key_cases:
  "object_key m k missing invalid =
     (if map_of m k = None then Inl (ErrMsg missing)
      else if \<not> is_object m k then Inl (ErrMsg invalid)
      else Inr (the_object m k))"
  by (auto simp: object_key_def is_object_def the_object_def split: option.splits ivalue.splits)

lemma factory_key_cases:
  "factory_key f k invalid = (if f k = None then Inl (ErrMsg (invalid @ k)) else Inr ())"
  by (auto simp: factory_key_def split: option.splits)

lemma then_do_if:
  "then_do (if c then Inl e else r) f = (if c then Inl e else then_do r f)"
  "then_do (Inr x) f = f x"
  by (simp_all add: then_do_def)

lemma UnmarshalNewRecipe_keys_first_violation:
  "UnmarshalNewRecipe_keys rm data =
     (case first_violation rm data of
        Some m \<Rightarrow> Inl (ErrMsg m)
      | None \<Rightarrow>
          Inr (the_string data ''name'', the_string data ''description'',
               the_string (the_object data ''trigger'') ''id'',
               the_object (the_object data ''trigger'') ''ingredients'',
               the_string (the_object data ''action'') ''id'',
               the_object (the_object data ''action'') ''ingredients''))"
  by (simp add: UnmarshalNewRecipe_keys_def string_key_cases object_key_cases factory_key_cases
      then_do_if first_violation_def required_key_checks_def Let_def
      if_distrib [of "map_option snd"] if_distrib [of "case_option x y" for x y]
      split del: if_split cong del: if_weak_cong)


lemma first_violation_None_factories:
  assumes "first_violation rm data = None"
  shows "triggerFactory rm (the_string (the_object data ''trigger'') ''id'') \<noteq> None \<and>
         actionFactory rm (the_string (the_object data ''action'') ''id'') \<noteq> None"
proof -
  from assms have "find fst (required_key_checks rm data) = None"
    by (simp add: first_violation_def)
  then have "\<forall>c \<in> set (required_key_checks rm data). \<not> fst c"
    by (auto simp: find_None_iff)
  then show ?thesis
    by (simp add: required_key_checks_def Let_def)
qed

lemma ex_factories:
  "triggerFactory ex_rm ''gohome.ExampleTrigger'' = Some ex_trigger_variant"
  "actionFactory ex_rm ''gohome.ZoneSetLevelAction'' = Some ZoneSetLevelAction"
  by (simp_all add: ex_rm_def buildTriggerFactory_def buildActionFactory_def ex_cookbook_def
      ex_trigger_variant_def ZoneSetLevelAction_def)

lemma ex_submission_parts:
  "the_string ex_submission ''name'' = ''Evening Lights''"
  "the_string ex_submission ''description'' = ''dim the kitchen''"
  "the_string (the_object ex_submission ''trigger'') ''id'' = ''gohome.ExampleTrigger''"
  "the_string (the_object ex_submission ''action'') ''id'' = ''gohome.ZoneSetLevelAction''"
  "the_object (the_object ex_submission ''trigger'') ''ingredients'' =
     [(''Label'', IString ''front door''), (''Hold'', INumber 1500)]"
  "the_object (the_object ex_submission ''action'') ''ingredients'' =
     [(''ZoneID'', IString ''z1''), (''Level'', INumber 75)]"
  by (simp_all add: ex_submission_def the_string_def the_object_def)

lemma ex_first_violation: "first_violation ex_rm ex_submission = None"
proof -
  have parts: "map_of ex_submission ''name'' \<noteq> None" "is_string ex_submission ''name''"
    "map_of ex_submission ''description'' \<noteq> None" "is_string ex_submission ''description''"
    "map_of ex_submission ''trigger'' \<noteq> None" "is_object ex_submission ''trigger''"
    "map_of ex_submission ''action'' \<noteq> None" "is_object ex_submission ''action''"
    by (simp_all add: ex_submission_def is_string_def is_object_def)
  have t: "the_object ex_submission ''trigger'' =
      [(''id'', IString ''gohome.ExampleTrigger''),
       (''ingredients'', IObject [(''Label'', IString ''front door''), (''Hold'', INumber 1500)])]"
    by (simp add: ex_submission_def the_object_def)
  have a: "the_object ex_submission ''action'' =
      [(''id'', IString ''gohome.ZoneSetLevelAction''),
       (''ingredients'', IObject [(''ZoneID'', IString ''z1''), (''Level'', INumber 75)])]"
    by (simp add: ex_submission_def the_object_def)
  have tp: "map_of (the_object ex_submission ''trigger'') ''id'' \<noteq> None"
    "is_string (the_object ex_submission ''trigger'') ''id''"
    "map_of (the_object ex_submission ''trigger'') ''ingredients'' \<noteq> None"
    "is_object (the_object ex_submission ''trigger'') ''ingredients''"
    by (simp_all add: t is_string_def is_object_def)
  have ap: "map_of (the_object ex_submission ''action'') ''id'' \<noteq> None"
    "is_string (the_object ex_submission ''action'') ''id''"
    "map_of (the_object ex_submission ''action'') ''ingredients'' \<noteq> None"
    "is_object (the_object ex_submission ''action'') ''ingredients''"
    by (simp_all add: a is_string_def is_object_def)
  show ?thesis
    by (simp add: first_violation_def required_key_checks_def Let_def parts tp ap
        ex_submission_parts ex_factories)
qed

lemma ex_first_violation_no_description:
  "first_violation ex_rm ex_submission_no_description = Some ''Missing description key''"
  by (simp add: first_violation_def required_key_checks_def Let_def
      ex_submission_no_description_def the_object_def is_string_def is_object_def)

lemma ex_bind_trigger:
  "setIngredients (vIngredients ex_trigger_variant)
     [(''Label'', IString ''front door''), (''Hold'', INumber 1500)] (vZero ex_trigger_variant) =
   (None, [(''Label'', GString ''front door''), (''Repeat'', GBool False), (''Count'', GInt 0),
         (''Hold'', GDuration 1500000000), (''At'', GTime ''0001-01-01T00:00:00Z'')])"
  by (simp add: ex_trigger_variant_def ex_ingredient_def set_ingredient_def SetString_def
      Set_Duration_def int64_of_float64_def wrap64_def)

lemma ex_bind_action:
  "setIngredients (vIngredients ZoneSetLevelAction)
     [(''ZoneID'', IString ''z1''), (''Level'', INumber 75)] (vZero ZoneSetLevelAction) =
   (None, [(''ZoneID'', GString ''z1''), (''Level'', GFloat (Finite 75))])"
  by (simp add: ZoneSetLevelAction_def set_ingredient_def SetString_def SetFloat_def)






text \<open>
  C4. For every submitted field map: when a required key is missing or of the wrong type,
  or a trigger or action ID is not in its factory, \<^verbatim>\<open>UnmarshalNewRecipe\<close> returns the
  message of the first violation in the order name, description, trigger, trigger.id,
  trigger.ingredients, trigger ID, action, action.id, action.ingredients, action ID, and
  the state is unchanged. With no violation both IDs are in the factories; a failure of
  binding the trigger's or the action's ingredients is returned as the error; otherwise
  the result is a recipe with the submitted name and description, the bound action and a
  new trigger object, which is enabled and not started. In every case the recipe list, the
  files and the broker's consumers are as before: nothing is persisted or registered.
\<close>

theorem UnmarshalNewRecipe_validates:
  "(\<forall>m. first_violation rm data = Some m \<longrightarrow>
       UnmarshalNewRecipe rm newID data = (Inl (ErrMsg m), rm)) \<and>
   (first_violation rm data = None \<longrightarrow>
       triggerFactory rm (the_string (the_object data ''trigger'') ''id'') \<noteq> None \<and>
       actionFactory rm (the_string (the_object data ''action'') ''id'') \<noteq> None) \<and>
   (\<forall>tv av. first_violation rm data = None \<and>
       triggerFactory rm (the_string (the_object data ''trigger'') ''id'') = Some tv \<and>
       actionFactory rm (the_string (the_object data ''action'') ''id'') = Some av \<longrightarrow>
       (let tb = setIngredients (vIngredients tv)
                   (the_object (the_object data ''trigger'') ''ingredients'') (vZero tv);
            ab = setIngredients (vIngredients av)
                   (the_object (the_object data ''action'') ''ingredients'') (vZero av);
            R = UnmarshalNewRecipe rm newID data
        in (\<forall>err. fst tb = Some err \<longrightarrow> fst R = Inl err) \<and>
           (\<forall>err. fst tb = None \<and> fst ab = Some err \<longrightarrow> fst R = Inl err) \<and>
           (fst tb = None \<and> fst ab = None \<longrightarrow>
              fst R = Inr \<lparr>rcp_Identifiable =
                             \<lparr>ID = newID, Name = the_string data ''name'',
                              Description = the_string data ''description''\<rparr>,
                           Trigger = length (heap rm),
                           Action = \<lparr>inst_variant = av, inst_fields = snd ab\<rparr>\<rparr> \<and>
              heap (snd R) = heap rm @
                [\<lparr>inst_variant = tv, inst_fields = snd tb,
                  trg_Enabled = True, trg_Started = False\<rparr>]))) \<and>
   preserves rm (snd (UnmarshalNewRecipe rm newID data))"
proof -
  let ?R = "UnmarshalNewRecipe rm newID data"
  have viol: "\<forall>m. first_violation rm data = Some m \<longrightarrow> ?R = (Inl (ErrMsg m), rm)"
    by (simp add: UnmarshalNewRecipe_def UnmarshalNewRecipe_keys_first_violation)
  have fact: "first_violation rm data = None \<longrightarrow>
       triggerFactory rm (the_string (the_object data ''trigger'') ''id'') \<noteq> None \<and>
       actionFactory rm (the_string (the_object data ''action'') ''id'') \<noteq> None"
    using first_violation_None_factories by blast
  have build: "(let tb = setIngredients (vIngredients tv)
                   (the_object (the_object data ''trigger'') ''ingredients'') (vZero tv);
            ab = setIngredients (vIngredients av)
                   (the_object (the_object data ''action'') ''ingredients'') (vZero av);
            R = UnmarshalNewRecipe rm newID data
        in (\<forall>err. fst tb = Some err \<longrightarrow> fst R = Inl err) \<and>
           (\<forall>err. fst tb = None \<and> fst ab = Some err \<longrightarrow> fst R = Inl err) \<and>
           (fst tb = None \<and> fst ab = None \<longrightarrow>
              fst R = Inr \<lparr>rcp_Identifiable =
                             \<lparr>ID = newID, Name = the_string data ''name'',
                              Description = the_string data ''description''\<rparr>,
                           Trigger = length (heap rm),
                           Action = \<lparr>inst_variant = av, inst_fields = snd ab\<rparr>\<rparr> \<and>
              heap (snd R) = heap rm @
                [\<lparr>inst_variant = tv, inst_fields = snd tb,
                  trg_Enabled = True, trg_Started = False\<rparr>]))"
    if ok: "first_violation rm data = None"
      and tf: "triggerFactory rm (the_string (the_object data ''trigger'') ''id'') = Some tv"
      and af: "actionFactory rm (the_string (the_object data ''action'') ''id'') = Some av"
    for tv av
  proof -
    obtain te ts where tb: "setIngredients (vIngredients tv)
        (the_object (the_object data ''trigger'') ''ingredients'') (vZero tv) = (te, ts)"
      by (cases "setIngredients (vIngredients tv)
        (the_object (the_object data ''trigger'') ''ingredients'') (vZero tv)")
    obtain ae as where ab: "setIngredients (vIngredients av)
        (the_object (the_object data ''action'') ''ingredients'') (vZero av) = (ae, as)"
      by (cases "setIngredients (vIngredients av)
        (the_object (the_object data ''action'') ''ingredients'') (vZero av)")
    show ?thesis
      by (cases te; cases ae)
         (simp_all add: UnmarshalNewRecipe_def UnmarshalNewRecipe_keys_first_violation ok tf af
           alloc_def New_trigger_def New_action_def Ingredients_def tb ab Let_def
           set_fields_def NewRecipe_def SetEnabled_def)
  qed
  from viol fact build UnmarshalNewRecipe_preserves [of rm newID data] show ?thesis
    by blast
qed

theorem UnmarshalNewRecipe_validates_witness:
  "UnmarshalNewRecipe ex_rm ''r9'' ex_submission_no_description =
     (Inl (ErrMsg ''Missing description key''), ex_rm) \<and>
   fst (UnmarshalNewRecipe ex_rm ''r9'' ex_submission) =
     Inr \<lparr>rcp_Identifiable = \<lparr>ID = ''r9'', Name = ''Evening Lights'', Description = ''dim the kitchen''\<rparr>,
          Trigger = 2, Action = ex_action\<rparr> \<and>
   trg_Enabled (heap (snd (UnmarshalNewRecipe ex_rm ''r9'' ex_submission)) ! 2) \<and>
   Recipes (snd (UnmarshalNewRecipe ex_rm ''r9'' ex_submission)) = [ex_recipe, ex_recipe_odd] \<and>
   eventBroker (snd (UnmarshalNewRecipe ex_rm ''r9'' ex_submission)) = [0, 1] \<and>
   files (snd (UnmarshalNewRecipe ex_rm ''r9'' ex_submission)) ''/data/r9.json'' = None"
proof -
  note A = UnmarshalNewRecipe_validates [of ex_rm ex_submission_no_description "''r9''"]
  note B = UnmarshalNewRecipe_validates [of ex_rm ex_submission "''r9''"]
  from A [THEN conjunct1, rule_format, OF ex_first_violation_no_description]
  have 1: "UnmarshalNewRecipe ex_rm ''r9'' ex_submission_no_description =
     (Inl (ErrMsg ''Missing description key''), ex_rm)" .
  have pre: "first_violation ex_rm ex_submission = None \<and>
       triggerFactory ex_rm (the_string (the_object ex_submission ''trigger'') ''id'') = Some ex_trigger_variant \<and>
       actionFactory ex_rm (the_string (the_object ex_submission ''action'') ''id'') = Some ZoneSetLevelAction"
    by (simp add: ex_first_violation ex_submission_parts ex_factories)
  note B3 = B [THEN conjunct2, THEN conjunct2, THEN conjunct1, rule_format, OF pre]
  have rs: "Recipes ex_rm = [ex_recipe, ex_recipe_odd]" "heap ex_rm = [ex_trigger, ex_trigger_odd]"
    "eventBroker ex_rm = [0, 1]" "files ex_rm ''/data/r9.json'' = None"
    by (simp_all add: ex_rm_def)
  from B3 have 2: "fst (UnmarshalNewRecipe ex_rm ''r9'' ex_submission) =
     Inr \<lparr>rcp_Identifiable = \<lparr>ID = ''r9'', Name = ''Evening Lights'', Description = ''dim the kitchen''\<rparr>,
          Trigger = 2, Action = ex_action\<rparr>"
    by (simp add: Let_def ex_submission_parts ex_bind_trigger ex_bind_action rs ex_action_def)
  from B3 have 3: "trg_Enabled (heap (snd (UnmarshalNewRecipe ex_rm ''r9'' ex_submission)) ! 2)"
    by (simp add: Let_def ex_submission_parts ex_bind_trigger ex_bind_action rs)
  note P = B [THEN conjunct2, THEN conjunct2, THEN conjunct2]
  from P rs have 4: "Recipes (snd (UnmarshalNewRecipe ex_rm ''r9'' ex_submission)) = [ex_recipe, ex_recipe_odd]"
    "eventBroker (snd (UnmarshalNewRecipe ex_rm ''r9'' ex_submission)) = [0, 1]"
    "files (snd (UnmarshalNewRecipe ex_rm ''r9'' ex_submission)) ''/data/r9.json'' = None"
    by (simp_all add: preserves_def)
  from 1 2 3 4 show ?thesis by blast
qed

subsection \<open>Saving and reloading a recipe\<close>









lemma kind_of_cases:
  "kind_of y = KString \<Longrightarrow> \<exists>v. y = GString v"
  "kind_of y = KBool \<Longrightarrow> \<exists>v. y = GBool v"
  "kind_of y = KInt \<Longrightarrow> \<exists>v. y = GInt v"
  "kind_of y = KFloat \<Longrightarrow> \<exists>v. y = GFloat v"
  "kind_of y = KDuration \<Longrightarrow> \<exists>v. y = GDuration v"
  by (cases y; simp)+














end
